theory Spec2Isabelle
  imports Complex_Main "HOL-Library.Char_ord" "HOL-Library.List_Lexorder"
begin

section \<open>The synthetic project data generator\<close>

text \<open>
  A shallow embedding of \<^verbatim>\<open>generate_project_data.py\<close>.

  A Python float is modelled as the real number it denotes and a Python integer as an
  \<^typ>\<open>int\<close>. The float arithmetic of the generator rounds: every operation returns the
  double nearest to its exact result. The two pseudo-random sources (the module
  \<^verbatim>\<open>random\<close> and the global generator of \<^verbatim>\<open>numpy.random\<close>) and \<^verbatim>\<open>np.exp\<close> are
  library code outside the repository. They are taken as parameters: a record of the
  library functions the generator calls, a sampler being a function from the generator's
  state to the drawn value and the next state.
\<close>

subsection \<open>Python values and built-ins\<close>

datatype pyval = VStr string | VInt int | VFloat real

text \<open>One element of \<^verbatim>\<open>data\<close>: a dict literal, keys in insertion order.\<close>

type_synonym row = "(string \<times> pyval) list"

text \<open>\<^verbatim>\<open>int(x)\<close> on a float: truncation toward zero.\<close>

definition py_int :: "real \<Rightarrow> int" where
  "py_int x = (if 0 \<le> x then \<lfloor>x\<rfloor> else \<lceil>x\<rceil>)"

text \<open>Rounding to the nearest integer, a tie going to the even neighbour.\<close>

definition round_half_even :: "real \<Rightarrow> int" where
  "round_half_even y =
     (let f = \<lfloor>y\<rfloor>; d = y - of_int f
      in if d < 1 / 2 then f
         else if 1 / 2 < d then f + 1
         else if even f then f else f + 1)"

text \<open>
  Double arithmetic. A double has a mantissa of 53 bits; its exponent is at least -1022,
  the numbers below \<open>2 ^ - 1022\<close> being the subnormal ones, spaced \<open>2 ^ - 1074\<close> apart.
  \<open>fl x\<close> is the double nearest to \<open>x\<close>, a tie going to the even mantissa. The largest
  double is not modelled: beyond it the machine returns an infinity, which no operation
  below reaches from draws in the ranges of their samplers; the overflow of \<^verbatim>\<open>np.exp\<close>
  is a value of its result type.
\<close>

definition double_exponent :: "real \<Rightarrow> int" where
  "double_exponent x = (if x = 0 then - 1022 else max \<lfloor>log 2 \<bar>x\<bar>\<rfloor> (- 1022))"

definition fl :: "real \<Rightarrow> real" where
  "fl x = of_int (round_half_even (x / 2 powi (double_exponent x - 52))) *
            2 powi (double_exponent x - 52)"

definition fadd :: "real \<Rightarrow> real \<Rightarrow> real" where
  "fadd x y = fl (x + y)"

definition fsub :: "real \<Rightarrow> real \<Rightarrow> real" where
  "fsub x y = fl (x - y)"

definition fmul :: "real \<Rightarrow> real \<Rightarrow> real" where
  "fmul x y = fl (x * y)"

definition fdiv :: "real \<Rightarrow> real \<Rightarrow> real" where
  "fdiv x y = fl (x / y)"

text \<open>
  \<^verbatim>\<open>round(x, ndigits)\<close> on a float: the decimal number of \<open>ndigits\<close> digits nearest to
  \<open>x\<close>, a tie going to the even digit, and then the double nearest to that number.
\<close>

definition py_round :: "real \<Rightarrow> nat \<Rightarrow> real" where
  "py_round x ndigits = fl (of_int (round_half_even (x * 10 ^ ndigits)) / 10 ^ ndigits)"

text \<open>The decimal digits of a natural number, most significant first.\<close>

definition digit_char :: "nat \<Rightarrow> char" where
  "digit_char d = char_of (48 + d)"

fun digits :: "nat \<Rightarrow> string" where
  "digits n = (if n < 10 then [digit_char n] else digits (n div 10) @ [digit_char (n mod 10)])"

declare digits.simps [simp del]

text \<open>
  \<^verbatim>\<open>format(k, '04d')\<close>: the decimal digits, padded with zeros on the left to a width of
  at least four characters, the sign counting as one of them.
\<close>

definition zero_pad :: "nat \<Rightarrow> string \<Rightarrow> string" where
  "zero_pad w s = replicate (w - length s) (CHR ''0'') @ s"

definition format_04d :: "int \<Rightarrow> string" where
  "format_04d k =
     (if k < 0 then CHR ''-'' # zero_pad 3 (digits (nat (- k)))
      else zero_pad 4 (digits (nat k)))"

subsection \<open>The pseudo-random sources\<close>

text \<open>
  The result of \<^verbatim>\<open>np.exp\<close> on a float: a float, or the infinity it returns when the
  exponential is beyond the largest double.
\<close>

datatype npfloat = Finite real | PosInf


text \<open>
  The library functions the generator calls. \<open>'p\<close> is the state of Python's
  \<^verbatim>\<open>random\<close> module, \<open>'n\<close> the state of numpy's global generator.
\<close>

record ('p, 'n) rng =
  rand_seed :: "int \<Rightarrow> 'p"
  rand_choice :: "string list \<Rightarrow> 'p \<Rightarrow> string \<times> 'p"
  rand_random :: "'p \<Rightarrow> real \<times> 'p"
  np_seed :: "int \<Rightarrow> 'n"
  np_lognormal :: "real \<Rightarrow> real \<Rightarrow> 'n \<Rightarrow> real \<times> 'n"
  np_gamma :: "real \<Rightarrow> real \<Rightarrow> 'n \<Rightarrow> real \<times> 'n"
  np_beta :: "real \<Rightarrow> real \<Rightarrow> 'n \<Rightarrow> real \<times> 'n"
  np_uniform :: "real \<Rightarrow> real \<Rightarrow> 'n \<Rightarrow> real \<times> 'n"
  np_poisson :: "real \<Rightarrow> 'n \<Rightarrow> int \<times> 'n"
  np_normal :: "real \<Rightarrow> real \<Rightarrow> 'n \<Rightarrow> real \<times> 'n"
  np_exp :: "real \<Rightarrow> npfloat"


subsection \<open>One record\<close>

definition project_types :: "string list" where
  "project_types = [''Software Development'', ''Infrastructure'', ''Business Process'',
                    ''Product Launch'', ''System Integration'']"

definition industries :: "string list" where
  "industries = [''Technology'', ''Finance'', ''Healthcare'', ''Retail'', ''Manufacturing'']"

text \<open>
  Lines 59 to 67, in double arithmetic. The decimal constants are the doubles nearest to
  them, the sum is taken from left to right, and the quotient of an integer by 10 is the
  double nearest to it.
\<close>

definition risk_score :: "real \<Rightarrow> real \<Rightarrow> real \<Rightarrow> real \<Rightarrow> real \<Rightarrow> int \<Rightarrow> int \<Rightarrow> real" where
  "risk_score scope_clarity stakeholder_engagement resource_availability
              technical_complexity team_experience change_requests dependencies =
     fadd (fadd (fadd (fadd (fadd (fadd
       (fmul (fsub 10 scope_clarity) (fl 0.2))
       (fmul (fsub 10 stakeholder_engagement) (fl 0.15)))
       (fmul (fsub 10 resource_availability) (fl 0.2)))
       (fmul technical_complexity (fl 0.15)))
       (fmul (fsub 10 team_experience) (fl 0.15)))
       (fmul (fdiv (of_int change_requests) 10) (fl 0.1)))
       (fmul (fdiv (of_int dependencies) 10) (fl 0.05))"

text \<open>
  Line 70, in double arithmetic. When \<^verbatim>\<open>np.exp\<close> returns an infinity so does the sum,
  and the quotient is 0.
\<close>

definition success_probability :: "('p, 'n) rng \<Rightarrow> real \<Rightarrow> real" where
  "success_probability R risk =
     (case np_exp R (fdiv (fsub risk 5) 2) of
        Finite e \<Rightarrow> fdiv 1 (fadd 1 e)
      | PosInf \<Rightarrow> 0)"

text \<open>
  Lines 74 to 81: the branch on \<^verbatim>\<open>success\<close>. It returns the actual duration before
  the floor of line 83, the budget variance, the quality score and the next state of
  numpy's generator.
\<close>

definition outcomes :: "('p, 'n) rng \<Rightarrow> int \<Rightarrow> int \<Rightarrow> 'n \<Rightarrow> int \<times> real \<times> real \<times> 'n" where
  "outcomes R success planned_duration ns =
     (if success \<noteq> 0 then
        (let (z, ns) = np_normal R 0 2 ns;
             actual_duration = planned_duration + py_int z;
             (v, ns) = np_normal R 0 15 ns;
             budget_variance = py_round v 1;
             (q, ns) = np_beta R 8 2 ns;
             quality_score = py_round (fmul q 100) 1
         in (actual_duration, budget_variance, quality_score, ns))
      else
        (let (z, ns) = np_normal R 5 3 ns;
             actual_duration = planned_duration + py_int z;
             (v, ns) = np_normal R 25 15 ns;
             budget_variance = py_round v 1;
             (q, ns) = np_beta R 3 5 ns;
             quality_score = py_round (fmul q 100) 1
         in (actual_duration, budget_variance, quality_score, ns)))"

text \<open>
  Lines 31 to 103: the body of the loop for index \<open>i\<close>, from the states of the two
  sources to the dict appended to \<^verbatim>\<open>data\<close> and the states afterwards. Where a clamp
  of line 37 applies the dict holds the int 50 or 5000; the column of the table is one of
  floats, and the row has the budget as the float of the same value.
\<close>

definition project_row :: "('p, 'n) rng \<Rightarrow> nat \<Rightarrow> 'p \<times> 'n \<Rightarrow> row \<times> ('p \<times> 'n)" where
  "project_row R i st =
     (let (ps, ns) = st;
          (project_type, ps) = rand_choice R project_types ps;
          (industry, ps) = rand_choice R industries ps;
          (x, ns) = np_lognormal R 5 1 ns;
          budget = py_round (fmul x 10) 2;
          budget = max 50 (min budget 5000);
          (x, ns) = np_lognormal R 2 0.8 ns;
          team_size = py_int x;
          team_size = max 3 (min team_size 50);
          (x, ns) = np_gamma R 3 2 ns;
          planned_duration = py_int x;
          planned_duration = max 1 (min planned_duration 24);
          (x, ns) = np_beta R 5 2 ns;
          scope_clarity = py_round (fmul x 10) 1;
          (x, ns) = np_beta R 4 2 ns;
          stakeholder_engagement = py_round (fmul x 10) 1;
          (x, ns) = np_beta R 5 3 ns;
          resource_availability = py_round (fmul x 10) 1;
          (x, ns) = np_uniform R 1 10 ns;
          technical_complexity = py_round x 1;
          (x, ns) = np_beta R 5 2 ns;
          team_experience = py_round (fmul x 10) 1;
          (change_requests, ns) = np_poisson R 3 ns;
          (dependencies, ns) = np_poisson R 2 ns;
          risk = risk_score scope_clarity stakeholder_engagement resource_availability
                   technical_complexity team_experience change_requests dependencies;
          (u, ps) = rand_random R ps;
          success = (if u < success_probability R risk then 1 else 0);
          (actual_duration, budget_variance, quality_score, ns) =
             outcomes R success planned_duration ns;
          actual_duration = max 1 actual_duration
      in ([(''project_id'', VStr (''PRJ_'' @ format_04d (int i + 1))),
           (''project_type'', VStr project_type),
           (''industry'', VStr industry),
           (''budget_thousands'', VFloat budget),
           (''team_size'', VInt team_size),
           (''planned_duration_months'', VInt planned_duration),
           (''actual_duration_months'', VInt actual_duration),
           (''scope_clarity_score'', VFloat scope_clarity),
           (''stakeholder_engagement'', VFloat stakeholder_engagement),
           (''resource_availability'', VFloat resource_availability),
           (''technical_complexity'', VFloat technical_complexity),
           (''team_experience_level'', VFloat team_experience),
           (''change_requests'', VInt change_requests),
           (''external_dependencies'', VInt dependencies),
           (''budget_variance_percent'', VFloat budget_variance),
           (''quality_score'', VFloat quality_score),
           (''success'', VInt success)],
          (ps, ns)))"

subsection \<open>The loop and the function\<close>

datatype error = ValueError string

text \<open>
  The loop of line 30 over \<^verbatim>\<open>range(n_projects)\<close>, the indices still to run as a list;
  \<open>data\<close> is the list built so far.
\<close>

fun generate_loop ::
  "('p, 'n) rng \<Rightarrow> nat list \<Rightarrow> row list \<Rightarrow> 'p \<times> 'n \<Rightarrow> row list \<times> ('p \<times> 'n)" where
  "generate_loop R [] data st = (data, st)"
| "generate_loop R (i # is) data st =
     (let (r, st) = project_row R i st in generate_loop R is (data @ [r]) st)"

text \<open>
  \<^verbatim>\<open>generate_project_data(n_projects)\<close>. \<^verbatim>\<open>range\<close> of a number below one is empty.
  The body has no \<^verbatim>\<open>raise\<close>: every path returns the table, the right injection.
  The table built by \<^verbatim>\<open>pd.DataFrame(data)\<close> is kept as the list of its rows.
\<close>

definition generate_project_data ::
  "('p, 'n) rng \<Rightarrow> int \<Rightarrow> 'p \<times> 'n \<Rightarrow> error + row list \<times> ('p \<times> 'n)" where
  "generate_project_data R n_projects st = Inr (generate_loop R [0..<nat n_projects] [] st)"

text \<open>Reading a field of a row.\<close>

definition field :: "row \<Rightarrow> string \<Rightarrow> pyval option" where
  "field r k = map_of r k"

subsection \<open>The rows of a run, and the draws behind them\<close>

text \<open>
  The rows the loop appends for the indices \<open>is\<close>, and the state it ends in: the loop
  without its accumulator.
\<close>

fun rows_from :: "('p, 'n) rng \<Rightarrow> nat list \<Rightarrow> 'p \<times> 'n \<Rightarrow> row list" where
  "rows_from R [] st = []"
| "rows_from R (i # is) st = fst (project_row R i st) # rows_from R is (snd (project_row R i st))"

fun state_after :: "('p, 'n) rng \<Rightarrow> nat list \<Rightarrow> 'p \<times> 'n \<Rightarrow> 'p \<times> 'n" where
  "state_after R [] st = st"
| "state_after R (i # is) st = state_after R is (snd (project_row R i st))"

text \<open>
  A call of one of the library functions, with its arguments. A source that keeps a
  journal of its calls: \<open>traced R\<close> draws what \<open>R\<close> draws and appends every call,
  with the value drawn, to a list carried beside the state of \<open>R\<close>.
\<close>

datatype call =
    Choice "string list" | Random
  | Lognormal real real | Gamma real real | Beta real real | Uniform real real
  | Poisson real | Normal real real

type_synonym journal = "(call \<times> pyval) list"

definition traced :: "('p, 'n) rng \<Rightarrow> ('p \<times> journal, 'n \<times> journal) rng" where
  "traced R =
     \<lparr> rand_seed = (\<lambda>k. (rand_seed R k, [])),
       rand_choice = (\<lambda>xs (s, j). let (v, s') = rand_choice R xs s
                                   in (v, (s', j @ [(Choice xs, VStr v)]))),
       rand_random = (\<lambda>(s, j). let (v, s') = rand_random R s
                               in (v, (s', j @ [(Random, VFloat v)]))),
       np_seed = (\<lambda>k. (np_seed R k, [])),
       np_lognormal = (\<lambda>m sd (s, j). let (v, s') = np_lognormal R m sd s
                                      in (v, (s', j @ [(Lognormal m sd, VFloat v)]))),
       np_gamma = (\<lambda>a sc (s, j). let (v, s') = np_gamma R a sc s
                                 in (v, (s', j @ [(Gamma a sc, VFloat v)]))),
       np_beta = (\<lambda>a b (s, j). let (v, s') = np_beta R a b s
                               in (v, (s', j @ [(Beta a b, VFloat v)]))),
       np_uniform = (\<lambda>lo hi (s, j). let (v, s') = np_uniform R lo hi s
                                    in (v, (s', j @ [(Uniform lo hi, VFloat v)]))),
       np_poisson = (\<lambda>lam (s, j). let (v, s') = np_poisson R lam s
                                  in (v, (s', j @ [(Poisson lam, VInt v)]))),
       np_normal = (\<lambda>m sd (s, j). let (v, s') = np_normal R m sd s
                                   in (v, (s', j @ [(Normal m sd, VFloat v)]))),
       np_exp = np_exp R \<rparr>"

text \<open>The calls one run of the loop body makes to each source, from empty journals.\<close>

definition rand_draws :: "('p, 'n) rng \<Rightarrow> nat \<Rightarrow> 'p \<times> 'n \<Rightarrow> journal" where
  "rand_draws R i st = snd (fst (snd (project_row (traced R) i ((fst st, []), (snd st, [])))))"

definition np_draws :: "('p, 'n) rng \<Rightarrow> nat \<Rightarrow> 'p \<times> 'n \<Rightarrow> journal" where
  "np_draws R i st = snd (snd (snd (project_row (traced R) i ((fst st, []), (snd st, [])))))"

subsection \<open>A small generator to run the definitions on\<close>

text \<open>
  Both states count the calls made so far. The choices cycle through their list, the
  uniform draw of \<^verbatim>\<open>random.random\<close> is 0 for the records of even index and 3/4 for the
  others (three calls a record), the Poisson draws return the counter, and the other draws
  return a fixed value of their range. Its \<^verbatim>\<open>np.exp\<close> is constantly 1, so that every
  success probability is 1/2.
\<close>

definition demo :: "(nat, nat) rng" where
  "demo =
     \<lparr> rand_seed = (\<lambda>k. 0),
       rand_choice = (\<lambda>xs k. (xs ! (k mod length xs), Suc k)),
       rand_random = (\<lambda>k. (if even (k div 3) then 0 else 3 / 4, Suc k)),
       np_seed = (\<lambda>k. 0),
       np_lognormal = (\<lambda>m sd k. (25 / 2, Suc k)),
       np_gamma = (\<lambda>a sc k. (a * sc, Suc k)),
       np_beta = (\<lambda>a b k. (1 / 2, Suc k)),
       np_uniform = (\<lambda>lo hi k. (hi, Suc k)),
       np_poisson = (\<lambda>lam k. (int k, Suc k)),
       np_normal = (\<lambda>m sd k. (m + 17 / 10, Suc k)),
       np_exp = (\<lambda>x. Finite 1) \<rparr>"

subsection \<open>The specification's reading of the duration noise\<close>

text \<open>
  The specification's words for the actual duration: the planned duration plus the noise
  rounded to the nearest integer, floored at 1.
\<close>

definition actual_duration_spec :: "int \<Rightarrow> real \<Rightarrow> int" where
  "actual_duration_spec planned_duration z = max 1 (planned_duration + round_half_even z)"

subsection \<open>The column of identifiers\<close>

text \<open>The column \<^verbatim>\<open>project_id\<close> of a table, in the order of its rows.\<close>

definition project_ids :: "row list \<Rightarrow> string list" where
  "project_ids tbl = map (\<lambda>r. case field r ''project_id'' of Some (VStr s) \<Rightarrow> s | _ \<Rightarrow> []) tbl"

text \<open>Reading a string of decimal digits as a number, leading zeros allowed.\<close>

definition digits_value :: "string \<Rightarrow> nat" where
  "digits_value s = foldl (\<lambda>a c. 10 * a + (of_char c - 48)) 0 s"

subsection \<open>Two calls in one process\<close>


section \<open>Properties\<close>

subsection \<open>Rounding\<close>

lemma round_half_even_ge: "of_int m \<le> y \<Longrightarrow> m \<le> round_half_even y"
proof -
  assume "of_int m \<le> y"
  then have "m \<le> \<lfloor>y\<rfloor>" by (simp add: le_floor_iff)
  then show ?thesis unfolding round_half_even_def Let_def by auto
qed

lemma round_half_even_le:
  assumes "y \<le> of_int m" shows "round_half_even y \<le> m"
proof (cases "y = of_int m")
  case True then show ?thesis by (simp add: round_half_even_def)
next
  case False
  with assms have "y < of_int m" by simp
  then have "\<lfloor>y\<rfloor> < m" by (simp add: floor_less_iff)
  then show ?thesis unfolding round_half_even_def Let_def by auto
qed

lemma round_half_even_of_int [simp]: "round_half_even (of_int m) = m"
  by (simp add: round_half_even_def)

lemma round_half_even_0 [simp]: "round_half_even 0 = 0"
  using round_half_even_of_int [of 0] by simp


lemma round_half_even_minus: "round_half_even (- y) = - round_half_even y"
proof (cases "y = of_int \<lfloor>y\<rfloor>")
  case True
  then obtain m where "y = of_int m" by metis
  then show ?thesis by (simp flip: of_int_minus)
next
  case False
  then have c: "\<lceil>y\<rceil> = \<lfloor>y\<rfloor> + 1" by (simp add: ceiling_altdef)
  have f: "\<lfloor>- y\<rfloor> = - \<lfloor>y\<rfloor> - 1" using c by (simp add: floor_minus)
  show ?thesis
    unfolding round_half_even_def Let_def f by (auto simp: algebra_simps)
qed


lemma two_powi_pos [simp]: "0 < (2 :: real) powi k"
  by (simp add: power_int_def)

lemma floor_log2_eq:
  assumes "2 powi e \<le> \<bar>x\<bar>" "\<bar>x\<bar> < 2 powi (e + 1)"
  shows "\<lfloor>log 2 \<bar>x\<bar>\<rfloor> = e"
proof -
  have p: "0 < \<bar>x\<bar>" using assms(1) two_powi_pos [of e] by linarith
  have "(2 :: real) powr of_int e = 2 powi e" "(2 :: real) powr of_int (e + 1) = 2 powi (e + 1)"
    by (rule powr_real_of_int'; simp)+
  then have "2 powr of_int e \<le> \<bar>x\<bar> \<and> \<bar>x\<bar> < 2 powr (of_int e + 1)"
    using assms by (simp add: add.commute)
  then show ?thesis using p by (simp add: floor_log_eq_powr_iff)
qed

lemma floor_log2_less:
  assumes "0 < \<bar>x\<bar>" "\<bar>x\<bar> < 2 powi k"
  shows "\<lfloor>log 2 \<bar>x\<bar>\<rfloor> < k"
proof -
  have "(2 :: real) powr of_int k = 2 powi k" by (simp add: powr_real_of_int')
  then have "\<bar>x\<bar> < 2 powr of_int k" using assms by simp
  then have "log 2 \<bar>x\<bar> < of_int k" using assms(1) by (simp add: log_less_iff)
  then show ?thesis by (simp add: floor_less_iff)
qed

lemma floor_log2_ge:
  assumes "2 powi k \<le> \<bar>x\<bar>"
  shows "k \<le> \<lfloor>log 2 \<bar>x\<bar>\<rfloor>"
proof -
  have p: "0 < \<bar>x\<bar>" using assms two_powi_pos [of k] by linarith
  have "(2 :: real) powr of_int k = 2 powi k" by (simp add: powr_real_of_int')
  then have "2 powr of_int k \<le> \<bar>x\<bar>" using assms by simp
  then have "of_int k \<le> log 2 \<bar>x\<bar>" using p by (simp add: le_log_iff)
  then show ?thesis by (simp add: le_floor_iff)
qed


lemma fl_eval:
  assumes "2 powi e \<le> \<bar>x\<bar>" "\<bar>x\<bar> < 2 powi (e + 1)" "- 1022 \<le> e" "d = e - 52"
  shows "fl x = of_int (round_half_even (x / 2 powi d)) * 2 powi d"
proof -
  have "0 < \<bar>x\<bar>" using assms(1) two_powi_pos [of e] by linarith
  then have "x \<noteq> 0" by simp
  then have "double_exponent x = e"
    unfolding double_exponent_def floor_log2_eq [OF assms(1,2)] using assms(3) by simp
  then show ?thesis by (simp add: fl_def assms(4))
qed

lemma fl_eval_num:
  assumes "2 powi e \<le> \<bar>x\<bar>" "\<bar>x\<bar> < 2 powi (e + 1)" "- 1022 \<le> e"
    and "round_half_even (x / 2 powi (e - 52)) = m" "y = of_int m * 2 powi (e - 52)"
  shows "fl x = y"
  using fl_eval [OF assms(1,2,3) refl] assms(4,5) by simp

lemma fl_0 [simp]: "fl 0 = 0"
  by (simp add: fl_def)

lemma fl_minus: "fl (- x) = - fl x"
  by (simp add: fl_def double_exponent_def round_half_even_minus)

lemma fl_nonneg: "0 \<le> x \<Longrightarrow> 0 \<le> fl x"
proof -
  assume "0 \<le> x"
  then have "of_int 0 \<le> x / 2 powi (double_exponent x - 52)" by simp
  then have "0 \<le> round_half_even (x / 2 powi (double_exponent x - 52))"
    by (rule round_half_even_ge)
  then show ?thesis by (simp add: fl_def)
qed

text \<open>A number of the form \<open>m * 2 ^ k\<close> with a mantissa below \<open>2 ^ 53\<close> is a double.\<close>

lemma double_exponent_le:
  assumes "\<bar>x\<bar> < 2 powi (k + 53)" "- 1074 \<le> k"
  shows "double_exponent x - 52 \<le> k"
proof (cases "x = 0")
  case True
  then show ?thesis using assms(2) by (simp add: double_exponent_def)
next
  case False
  then have "\<lfloor>log 2 \<bar>x\<bar>\<rfloor> < k + 53" using assms(1) by (intro floor_log2_less) simp_all
  then show ?thesis using assms(2) False by (simp add: double_exponent_def max_def)
qed

lemma fl_le_double:
  assumes "x \<le> of_int m * 2 powi k" "\<bar>x\<bar> < 2 powi (k + 53)" "- 1074 \<le> k"
  shows "fl x \<le> of_int m * 2 powi k"
proof -
  define d where "d = double_exponent x - 52"
  have dk: "d \<le> k" unfolding d_def using assms(2,3) by (rule double_exponent_le)
  then have s: "(2 :: real) powi k = 2 ^ nat (k - d) * 2 powi d"
    using power_int_add [of "2 :: real" "k - d" d] by (simp add: power_int_def)
  have "x / 2 powi d \<le> of_int m * 2 ^ nat (k - d)"
    using assms(1) unfolding s by (simp add: field_simps)
  then have "x / 2 powi d \<le> of_int (m * 2 ^ nat (k - d))" by simp
  then have "round_half_even (x / 2 powi d) \<le> m * 2 ^ nat (k - d)"
    by (rule round_half_even_le)
  then have "of_int (round_half_even (x / 2 powi d)) \<le> (of_int (m * 2 ^ nat (k - d)) :: real)"
    by (simp only: of_int_le_iff)
  then have "real_of_int (round_half_even (x / 2 powi d)) * 2 powi d \<le>
             of_int m * 2 ^ nat (k - d) * 2 powi d"
    by (simp add: mult_right_mono)
  then show ?thesis unfolding fl_def d_def [symmetric] s by (simp add: mult.assoc)
qed

lemma fl_ge_double:
  assumes "of_int m * 2 powi k \<le> x" "\<bar>x\<bar> < 2 powi (k + 53)" "- 1074 \<le> k"
  shows "of_int m * 2 powi k \<le> fl x"
proof -
  have "fl (- x) \<le> of_int (- m) * 2 powi k"
    using assms by (intro fl_le_double) simp_all
  then show ?thesis by (simp add: fl_minus)
qed

lemma fl_double:
  assumes "x = of_int m * 2 powi k" "\<bar>m\<bar> < 2 ^ 53" "- 1074 \<le> k"
  shows "fl x = x"
proof -
  have "\<bar>x\<bar> = of_int \<bar>m\<bar> * 2 powi k" unfolding assms(1) by (simp add: abs_mult)
  also have "\<dots> < 2 ^ 53 * 2 powi k"
    using assms(2) by (intro mult_strict_right_mono) (simp_all flip: of_int_less_iff)
  also have "\<dots> = 2 powi (k + 53)"
    using power_int_add [of "2 :: real" 53 k] by (simp add: add.commute)
  finally have b: "\<bar>x\<bar> < 2 powi (k + 53)" .
  have "fl x \<le> of_int m * 2 powi k" using assms(1,3) b by (intro fl_le_double) simp_all
  moreover have "of_int m * 2 powi k \<le> fl x" using assms(1,3) b by (intro fl_ge_double) simp_all
  ultimately show ?thesis using assms(1) by simp
qed





lemma fl_1 [simp]: "fl 1 = 1"
  by (rule fl_double [of 1 1 0]) simp_all

lemma py_round_1_bounds:
  assumes "0 \<le> x" "x \<le> 100" shows "0 \<le> py_round x 1" "py_round x 1 \<le> 100"
proof -
  define y where "y = real_of_int (round_half_even (x * 10)) / 10"
  have "of_int 0 \<le> x * 10" using assms by simp
  then have a: "0 \<le> round_half_even (x * 10)" by (rule round_half_even_ge)
  have "x * 10 \<le> of_int 1000" using assms by simp
  then have b: "round_half_even (x * 10) \<le> 1000" by (rule round_half_even_le)
  have y0: "0 \<le> y" using a by (simp add: y_def)
  have "real_of_int (round_half_even (x * 10)) \<le> 1000" using b by linarith
  then have y1: "y \<le> 100" by (simp add: y_def)
  have p: "py_round x 1 = fl y" by (simp add: py_round_def y_def)
  show "0 \<le> py_round x 1" unfolding p using y0 by (rule fl_nonneg)
  have "fl y \<le> of_int 25 * 2 powi 2" using y0 y1 by (intro fl_le_double) simp_all
  then show "py_round x 1 \<le> 100" unfolding p by simp
qed

lemma fmul_100_bounds:
  assumes "0 \<le> q" "q \<le> 1" shows "0 \<le> fmul q 100" "fmul q 100 \<le> 100"
proof -
  show "0 \<le> fmul q 100" unfolding fmul_def using assms by (intro fl_nonneg) simp
  have "fl (q * 100) \<le> of_int 25 * 2 powi 2" using assms by (intro fl_le_double) simp_all
  then show "fmul q 100 \<le> 100" by (simp add: fmul_def)
qed

subsection \<open>The loop\<close>

lemma generate_loop_eq:
  "generate_loop R is data st = (data @ rows_from R is st, state_after R is st)"
  by (induction "is" arbitrary: data st) (simp_all add: split_beta)

lemma generate_project_data_eq:
  "generate_project_data R n st =
     Inr (rows_from R [0..<nat n] st, state_after R [0..<nat n] st)"
  by (simp add: generate_project_data_def generate_loop_eq)

lemma length_rows_from: "length (rows_from R is st) = length is"
  by (induction "is" arbitrary: st) simp_all



lemma rows_from_nth:
  "k < length is \<Longrightarrow>
     rows_from R is st ! k = fst (project_row R (is ! k) (state_after R (take k is) st))"
proof (induction "is" arbitrary: st k)
  case Nil then show ?case by simp
next
  case (Cons i "is")
  then show ?case by (cases k) simp_all
qed

lemma rows_from_all:
  "(\<And>i st. P (fst (project_row R i st))) \<Longrightarrow> r \<in> set (rows_from R is st) \<Longrightarrow> P r"
proof (induction "is" arbitrary: st)
  case Nil then show ?case by simp
next
  case (Cons i "is")
  from Cons.prems(2) have "r = fst (project_row R i st) \<or>
      r \<in> set (rows_from R is (snd (project_row R i st)))" by simp
  then show ?case using Cons.IH Cons.prems(1) by blast
qed

subsection \<open>The loop body, draw by draw\<close>

text \<open>
  The journal of \<open>traced R\<close> grows by one entry a call, and the value drawn is that
  of \<open>R\<close>.
\<close>

lemma traced_simps:
  "rand_choice (traced R) xs (p, j) =
     (fst (rand_choice R xs p),
      (snd (rand_choice R xs p), j @ [(Choice xs, VStr (fst (rand_choice R xs p)))]))"
  "rand_random (traced R) (p, j) =
     (fst (rand_random R p), (snd (rand_random R p), j @ [(Random, VFloat (fst (rand_random R p)))]))"
  "np_lognormal (traced R) a b (s, j) =
     (fst (np_lognormal R a b s),
      (snd (np_lognormal R a b s), j @ [(Lognormal a b, VFloat (fst (np_lognormal R a b s)))]))"
  "np_gamma (traced R) a b (s, j) =
     (fst (np_gamma R a b s),
      (snd (np_gamma R a b s), j @ [(Gamma a b, VFloat (fst (np_gamma R a b s)))]))"
  "np_beta (traced R) a b (s, j) =
     (fst (np_beta R a b s),
      (snd (np_beta R a b s), j @ [(Beta a b, VFloat (fst (np_beta R a b s)))]))"
  "np_uniform (traced R) a b (s, j) =
     (fst (np_uniform R a b s),
      (snd (np_uniform R a b s), j @ [(Uniform a b, VFloat (fst (np_uniform R a b s)))]))"
  "np_poisson (traced R) a (s, j) =
     (fst (np_poisson R a s),
      (snd (np_poisson R a s), j @ [(Poisson a, VInt (fst (np_poisson R a s)))]))"
  "np_normal (traced R) a b (s, j) =
     (fst (np_normal R a b s),
      (snd (np_normal R a b s), j @ [(Normal a b, VFloat (fst (np_normal R a b s)))]))"
  "np_exp (traced R) = np_exp R"
  "success_probability (traced R) r = success_probability R r"
  by (simp_all add: traced_def split_beta success_probability_def)

lemma outcomes_cases:
  obtains z n1 v n2 q n3 where
    "np_normal R (if success \<noteq> 0 then 0 else 5) (if success \<noteq> 0 then 2 else 3) ns = (z, n1)"
    "np_normal R (if success \<noteq> 0 then 0 else 25) 15 n1 = (v, n2)"
    "np_beta R (if success \<noteq> 0 then 8 else 3) (if success \<noteq> 0 then 2 else 5) n2 = (q, n3)"
    "outcomes R success planned ns = (planned + py_int z, py_round v 1, py_round (fmul q 100) 1, n3)"
    "\<forall>j. outcomes (traced R) success planned (ns, j) =
       (planned + py_int z, py_round v 1, py_round (fmul q 100) 1,
        (n3, j @ [(Normal (if success \<noteq> 0 then 0 else 5) (if success \<noteq> 0 then 2 else 3), VFloat z),
                  (Normal (if success \<noteq> 0 then 0 else 25) 15, VFloat v),
                  (Beta (if success \<noteq> 0 then 8 else 3) (if success \<noteq> 0 then 2 else 5), VFloat q)]))"
proof -
  obtain z n1 where a: "np_normal R (if success \<noteq> 0 then 0 else 5) (if success \<noteq> 0 then 2 else 3) ns = (z, n1)"
    by (meson surj_pair)
  obtain v n2 where b: "np_normal R (if success \<noteq> 0 then 0 else 25) 15 n1 = (v, n2)"
    by (meson surj_pair)
  obtain q n3 where c: "np_beta R (if success \<noteq> 0 then 8 else 3) (if success \<noteq> 0 then 2 else 5) n2 = (q, n3)"
    by (meson surj_pair)
  have d: "outcomes R success planned ns = (planned + py_int z, py_round v 1, py_round (fmul q 100) 1, n3)"
    using a b c by (cases "success \<noteq> 0") (simp_all add: outcomes_def)
  have e: "\<forall>j. outcomes (traced R) success planned (ns, j) =
       (planned + py_int z, py_round v 1, py_round (fmul q 100) 1,
        (n3, j @ [(Normal (if success \<noteq> 0 then 0 else 5) (if success \<noteq> 0 then 2 else 3), VFloat z),
                  (Normal (if success \<noteq> 0 then 0 else 25) 15, VFloat v),
                  (Beta (if success \<noteq> 0 then 8 else 3) (if success \<noteq> 0 then 2 else 5), VFloat q)]))"
    using a b c by (cases "success \<noteq> 0") (simp_all add: outcomes_def traced_simps)
  show thesis using that [OF a b c d e] .
qed

lemma project_row_cases:
  obtains (draws) project_type ps1 industry ps2 x_budget n1 x_team n2 x_planned n3 x_scope n4 x_stake n5 x_resource n6 x_technical n7 x_experience n8 change_requests n9 dependencies n10 u ps3 success planned z n11 v n12 q n13
  where
    "rand_choice R project_types ps = (project_type, ps1)"
    "rand_choice R industries ps1 = (industry, ps2)"
    "np_lognormal R 5 1 ns = (x_budget, n1)"
    "np_lognormal R 2 0.8 n1 = (x_team, n2)"
    "np_gamma R 3 2 n2 = (x_planned, n3)"
    "np_beta R 5 2 n3 = (x_scope, n4)"
    "np_beta R 4 2 n4 = (x_stake, n5)"
    "np_beta R 5 3 n5 = (x_resource, n6)"
    "np_uniform R 1 10 n6 = (x_technical, n7)"
    "np_beta R 5 2 n7 = (x_experience, n8)"
    "np_poisson R 3 n8 = (change_requests, n9)"
    "np_poisson R 2 n9 = (dependencies, n10)"
    "rand_random R ps2 = (u, ps3)"
    "success = (if u < success_probability R
                  (risk_score (py_round (fmul x_scope 10) 1) (py_round (fmul x_stake 10) 1)
                     (py_round (fmul x_resource 10) 1) (py_round x_technical 1)
                     (py_round (fmul x_experience 10) 1) change_requests dependencies)
           then 1 else 0)"
    "planned = max 1 (min (py_int x_planned) 24)"
    "np_normal R (if success \<noteq> 0 then 0 else 5) (if success \<noteq> 0 then 2 else 3) n10 = (z, n11)"
    "np_normal R (if success \<noteq> 0 then 0 else 25) 15 n11 = (v, n12)"
    "np_beta R (if success \<noteq> 0 then 8 else 3) (if success \<noteq> 0 then 2 else 5) n12 = (q, n13)"
    "project_row R i (ps, ns) =
       ([(''project_id'', VStr (''PRJ_'' @ format_04d (int i + 1))),
         (''project_type'', VStr project_type),
         (''industry'', VStr industry),
         (''budget_thousands'', VFloat (max 50 (min (py_round (fmul x_budget 10) 2) 5000))),
         (''team_size'', VInt (max 3 (min (py_int x_team) 50))),
         (''planned_duration_months'', VInt planned),
         (''actual_duration_months'', VInt (max 1 (planned + py_int z))),
         (''scope_clarity_score'', VFloat (py_round (fmul x_scope 10) 1)),
         (''stakeholder_engagement'', VFloat (py_round (fmul x_stake 10) 1)),
         (''resource_availability'', VFloat (py_round (fmul x_resource 10) 1)),
         (''technical_complexity'', VFloat (py_round x_technical 1)),
         (''team_experience_level'', VFloat (py_round (fmul x_experience 10) 1)),
         (''change_requests'', VInt change_requests),
         (''external_dependencies'', VInt dependencies),
         (''budget_variance_percent'', VFloat (py_round v 1)),
         (''quality_score'', VFloat (py_round (fmul q 100) 1)),
         (''success'', VInt success)],
        (ps3, n13))"
    "rand_draws R i (ps, ns) =
       [(Choice project_types, VStr project_type), (Choice industries, VStr industry),
        (Random, VFloat u)]"
    "np_draws R i (ps, ns) =
       [(Lognormal 5 1, VFloat x_budget), (Lognormal 2 0.8, VFloat x_team),
        (Gamma 3 2, VFloat x_planned), (Beta 5 2, VFloat x_scope), (Beta 4 2, VFloat x_stake),
        (Beta 5 3, VFloat x_resource), (Uniform 1 10, VFloat x_technical),
        (Beta 5 2, VFloat x_experience), (Poisson 3, VInt change_requests),
        (Poisson 2, VInt dependencies),
        (Normal (if success \<noteq> 0 then 0 else 5) (if success \<noteq> 0 then 2 else 3), VFloat z),
        (Normal (if success \<noteq> 0 then 0 else 25) 15, VFloat v),
        (Beta (if success \<noteq> 0 then 8 else 3) (if success \<noteq> 0 then 2 else 5), VFloat q)]"
proof -
  obtain project_type ps1 where c1: "rand_choice R project_types ps = (project_type, ps1)"
    by (meson surj_pair)
  obtain industry ps2 where c2: "rand_choice R industries ps1 = (industry, ps2)"
    by (meson surj_pair)
  obtain x_budget n1 where d1: "np_lognormal R 5 1 ns = (x_budget, n1)"
    by (meson surj_pair)
  obtain x_team n2 where d2: "np_lognormal R 2 0.8 n1 = (x_team, n2)"
    by (meson surj_pair)
  obtain x_planned n3 where d3: "np_gamma R 3 2 n2 = (x_planned, n3)"
    by (meson surj_pair)
  obtain x_scope n4 where d4: "np_beta R 5 2 n3 = (x_scope, n4)"
    by (meson surj_pair)
  obtain x_stake n5 where d5: "np_beta R 4 2 n4 = (x_stake, n5)"
    by (meson surj_pair)
  obtain x_resource n6 where d6: "np_beta R 5 3 n5 = (x_resource, n6)"
    by (meson surj_pair)
  obtain x_technical n7 where d7: "np_uniform R 1 10 n6 = (x_technical, n7)"
    by (meson surj_pair)
  obtain x_experience n8 where d8: "np_beta R 5 2 n7 = (x_experience, n8)"
    by (meson surj_pair)
  obtain change_requests n9 where d9: "np_poisson R 3 n8 = (change_requests, n9)"
    by (meson surj_pair)
  obtain dependencies n10 where d10: "np_poisson R 2 n9 = (dependencies, n10)"
    by (meson surj_pair)
  obtain u ps3 where c3: "rand_random R ps2 = (u, ps3)"
    by (meson surj_pair)
  define success :: int where s: "success = (if u < success_probability R
                  (risk_score (py_round (fmul x_scope 10) 1) (py_round (fmul x_stake 10) 1)
                     (py_round (fmul x_resource 10) 1) (py_round x_technical 1)
                     (py_round (fmul x_experience 10) 1) change_requests dependencies)
           then 1 else 0)"
  define planned :: int where p: "planned = max 1 (min (py_int x_planned) 24)"
  obtain z n11 v n12 q n13 where
    o1: "np_normal R (if success \<noteq> 0 then 0 else 5) (if success \<noteq> 0 then 2 else 3) n10 = (z, n11)" and
    o2: "np_normal R (if success \<noteq> 0 then 0 else 25) 15 n11 = (v, n12)" and
    o3: "np_beta R (if success \<noteq> 0 then 8 else 3) (if success \<noteq> 0 then 2 else 5) n12 = (q, n13)" and
    o4: "outcomes R success planned n10 = (planned + py_int z, py_round v 1, py_round (fmul q 100) 1, n13)" and
    o5: "\<forall>j. outcomes (traced R) success planned (n10, j) =
       (planned + py_int z, py_round v 1, py_round (fmul q 100) 1,
        (n13, j @ [(Normal (if success \<noteq> 0 then 0 else 5) (if success \<noteq> 0 then 2 else 3), VFloat z),
                  (Normal (if success \<noteq> 0 then 0 else 25) 15, VFloat v),
                  (Beta (if success \<noteq> 0 then 8 else 3) (if success \<noteq> 0 then 2 else 5), VFloat q)]))"
    by (rule outcomes_cases [of R success n10 planned]) blast
  have row: "project_row R i (ps, ns) =
       ([(''project_id'', VStr (''PRJ_'' @ format_04d (int i + 1))),
         (''project_type'', VStr project_type),
         (''industry'', VStr industry),
         (''budget_thousands'', VFloat (max 50 (min (py_round (fmul x_budget 10) 2) 5000))),
         (''team_size'', VInt (max 3 (min (py_int x_team) 50))),
         (''planned_duration_months'', VInt planned),
         (''actual_duration_months'', VInt (max 1 (planned + py_int z))),
         (''scope_clarity_score'', VFloat (py_round (fmul x_scope 10) 1)),
         (''stakeholder_engagement'', VFloat (py_round (fmul x_stake 10) 1)),
         (''resource_availability'', VFloat (py_round (fmul x_resource 10) 1)),
         (''technical_complexity'', VFloat (py_round x_technical 1)),
         (''team_experience_level'', VFloat (py_round (fmul x_experience 10) 1)),
         (''change_requests'', VInt change_requests),
         (''external_dependencies'', VInt dependencies),
         (''budget_variance_percent'', VFloat (py_round v 1)),
         (''quality_score'', VFloat (py_round (fmul q 100) 1)),
         (''success'', VInt success)],
        (ps3, n13))"
    unfolding project_row_def
    by (simp only: Let_def prod.case c1 c2 c3 d1 d2 d3 d4 d5 d6 d7 d8 d9 d10
                   s [symmetric] p [symmetric] o4)
  have t: "project_row (traced R) i ((ps, []), (ns, [])) = (fst (project_row R i (ps, ns)), ((ps3, [(Choice project_types, VStr project_type), (Choice industries, VStr industry), (Random, VFloat u)]), (n13, [(Lognormal 5 1, VFloat x_budget), (Lognormal 2 0.8, VFloat x_team),
        (Gamma 3 2, VFloat x_planned), (Beta 5 2, VFloat x_scope), (Beta 4 2, VFloat x_stake),
        (Beta 5 3, VFloat x_resource), (Uniform 1 10, VFloat x_technical),
        (Beta 5 2, VFloat x_experience), (Poisson 3, VInt change_requests),
        (Poisson 2, VInt dependencies),
        (Normal (if success \<noteq> 0 then 0 else 5) (if success \<noteq> 0 then 2 else 3), VFloat z),
        (Normal (if success \<noteq> 0 then 0 else 25) 15, VFloat v),
        (Beta (if success \<noteq> 0 then 8 else 3) (if success \<noteq> 0 then 2 else 5), VFloat q)])))"
    unfolding project_row_def
    by (simp only: Let_def prod.case traced_simps fst_conv snd_conv append_Nil append_Cons
                   c1 c2 c3 d1 d2 d3 d4 d5 d6 d7 d8 d9 d10 s [symmetric] p [symmetric] o4 o5)
  have rd: "rand_draws R i (ps, ns) =
       [(Choice project_types, VStr project_type), (Choice industries, VStr industry),
        (Random, VFloat u)]"
    by (simp add: rand_draws_def t)
  have nd: "np_draws R i (ps, ns) =
       [(Lognormal 5 1, VFloat x_budget), (Lognormal 2 0.8, VFloat x_team),
        (Gamma 3 2, VFloat x_planned), (Beta 5 2, VFloat x_scope), (Beta 4 2, VFloat x_stake),
        (Beta 5 3, VFloat x_resource), (Uniform 1 10, VFloat x_technical),
        (Beta 5 2, VFloat x_experience), (Poisson 3, VInt change_requests),
        (Poisson 2, VInt dependencies),
        (Normal (if success \<noteq> 0 then 0 else 5) (if success \<noteq> 0 then 2 else 3), VFloat z),
        (Normal (if success \<noteq> 0 then 0 else 25) 15, VFloat v),
        (Beta (if success \<noteq> 0 then 8 else 3) (if success \<noteq> 0 then 2 else 5), VFloat q)]"
    by (simp add: np_draws_def t)
  show thesis
    using that [OF c1 c2 d1 d2 d3 d4 d5 d6 d7 d8 d9 d10 c3 s p o1 o2 o3 row rd nd] .
qed

subsection \<open>Two records of the small generator\<close>

lemma format_04d_demo: "format_04d 1 = ''0001''" "format_04d 2 = ''0002''"
  by (simp_all add: format_04d_def zero_pad_def digits.simps digit_char_def) code_simp+

lemma fl_demo:
  "fl 2 = 2" "fl 5 = 5" "fl 10 = 10" "fl 50 = 50" "fl 125 = 125" "fl (1 / 2) = 1 / 2"
  "fl (17 / 10) = 7656119366529843 / 4503599627370496"
  "fl (267 / 10) = 7515381878174515 / 281474976710656"
proof -
  show "fl 2 = 2" by (rule fl_double [of _ 2 0]) simp_all
  show "fl 5 = 5" by (rule fl_double [of _ 5 0]) simp_all
  show "fl 10 = 10" by (rule fl_double [of _ 10 0]) simp_all
  show "fl 50 = 50" by (rule fl_double [of _ 50 0]) simp_all
  show "fl 125 = 125" by (rule fl_double [of _ 125 0]) simp_all
  show "fl (1 / 2) = 1 / 2" by (rule fl_double [of _ 1 "- 1"]) simp_all
  show "fl (17 / 10) = 7656119366529843 / 4503599627370496"
    by (rule fl_eval_num [where e = 0 and m = 7656119366529843])
       (simp_all add: round_half_even_def)
  show "fl (267 / 10) = 7515381878174515 / 281474976710656"
    by (rule fl_eval_num [where e = 4 and m = 7515381878174515])
       (simp_all add: round_half_even_def)
qed

lemma demo_arith:
  "fmul (25 / 2) 10 = 125" "py_round 125 2 = 125"
  "fmul (1 / 2) 10 = 5" "py_round 5 (Suc 0) = 5" "py_round 10 (Suc 0) = 10"
  "fmul (1 / 2) 100 = 50" "py_round 50 (Suc 0) = 50"
  "py_round (17 / 10) (Suc 0) = 7656119366529843 / 4503599627370496"
  "py_round (267 / 10) (Suc 0) = 7515381878174515 / 281474976710656"
  "fadd 1 1 = 2" "fdiv 1 2 = 1 / 2"
  by (simp_all add: fmul_def fadd_def fdiv_def py_round_def round_half_even_def fl_demo)

lemma demo_row_0:
  "project_row demo 0 (0, 0) =
     ([(''project_id'', VStr ''PRJ_0001''),
       (''project_type'', VStr ''Software Development''),
       (''industry'', VStr ''Finance''),
       (''budget_thousands'', VFloat 125),
       (''team_size'', VInt 12),
       (''planned_duration_months'', VInt 6),
       (''actual_duration_months'', VInt 7),
       (''scope_clarity_score'', VFloat 5),
       (''stakeholder_engagement'', VFloat 5),
       (''resource_availability'', VFloat 5),
       (''technical_complexity'', VFloat 10),
       (''team_experience_level'', VFloat 5),
       (''change_requests'', VInt 8),
       (''external_dependencies'', VInt 9),
       (''budget_variance_percent'', VFloat (7656119366529843 / 4503599627370496)),
       (''quality_score'', VFloat 50),
       (''success'', VInt 1)],
      (3, 13))"
  by (simp add: project_row_def demo_def Let_def outcomes_def success_probability_def
        py_int_def project_types_def industries_def demo_arith format_04d_demo)

lemma demo_row_1:
  "project_row demo (Suc 0) (3, 13) =
     ([(''project_id'', VStr ''PRJ_0002''),
       (''project_type'', VStr ''Product Launch''),
       (''industry'', VStr ''Manufacturing''),
       (''budget_thousands'', VFloat 125),
       (''team_size'', VInt 12),
       (''planned_duration_months'', VInt 6),
       (''actual_duration_months'', VInt 12),
       (''scope_clarity_score'', VFloat 5),
       (''stakeholder_engagement'', VFloat 5),
       (''resource_availability'', VFloat 5),
       (''technical_complexity'', VFloat 10),
       (''team_experience_level'', VFloat 5),
       (''change_requests'', VInt 21),
       (''external_dependencies'', VInt 22),
       (''budget_variance_percent'', VFloat (7515381878174515 / 281474976710656)),
       (''quality_score'', VFloat 50),
       (''success'', VInt 0)],
      (6, 26))"
  by (simp add: project_row_def demo_def Let_def outcomes_def success_probability_def
        py_int_def project_types_def industries_def demo_arith format_04d_demo)

lemma demo_table_2:
  "generate_project_data demo 2 (0, 0) =
     Inr ([fst (project_row demo 0 (0, 0)), fst (project_row demo (Suc 0) (3, 13))], (6, 26))"
proof -
  have "[0..<nat 2] = [0, Suc 0]" by (simp add: upt_rec)
  then show ?thesis
    by (simp add: generate_project_data_def demo_row_0 demo_row_1)
qed

subsection \<open>Decimal digits\<close>

lemma of_char_digit_char: "d < 10 \<Longrightarrow> of_char (digit_char d) = 48 + d"
  by (simp add: digit_char_def)

lemma digit_char_0: "digit_char 0 = CHR ''0''"
  by code_simp

lemma digit_char_less: "a < 10 \<Longrightarrow> b < 10 \<Longrightarrow> digit_char a < digit_char b \<longleftrightarrow> a < b"
  by (simp add: less_char_def of_char_digit_char)

lemma digit_char_eq: "a < 10 \<Longrightarrow> b < 10 \<Longrightarrow> digit_char a = digit_char b \<longleftrightarrow> a = b"
  by (simp add: digit_char_def)

lemma digits_value_snoc:
  "digits_value (s @ [c]) = 10 * digits_value s + (of_char c - 48)"
  by (simp add: digits_value_def)

lemma digits_value_digits: "digits_value (digits n) = n"
proof (induction n rule: digits.induct)
  case (1 n)
  show ?case
  proof (cases "n < 10")
    case True
    then show ?thesis
      by (subst digits.simps) (simp add: digits_value_def of_char_digit_char)
  next
    case False
    with 1 have "digits_value (digits (n div 10)) = n div 10" by simp
    with False show ?thesis
      by (subst digits.simps) (simp add: digits_value_snoc of_char_digit_char)
  qed
qed

lemma digits_value_zeros: "digits_value (replicate k (CHR ''0'') @ s) = digits_value s"
proof -
  have "foldl (\<lambda>a c. 10 * a + (of_char c - 48)) 0 (replicate k (CHR ''0'')) = (0 :: nat)"
    by (induction k) simp_all
  then show ?thesis by (simp add: digits_value_def)
qed

lemma digits_value_format_04d: "0 \<le> k \<Longrightarrow> digits_value (format_04d k) = nat k"
  by (simp add: format_04d_def zero_pad_def digits_value_zeros digits_value_digits)

lemma digits_small:
  "n < 10 \<Longrightarrow> digits n = [digit_char n]"
  "10 \<le> n \<Longrightarrow> digits n = digits (n div 10) @ [digit_char (n mod 10)]"
  by (subst digits.simps, simp) (subst digits.simps, simp)

lemma zero_pad_4:
  "zero_pad 4 [a] = [CHR ''0'', CHR ''0'', CHR ''0'', a]"
  "zero_pad 4 [a, b] = [CHR ''0'', CHR ''0'', a, b]"
  "zero_pad 4 [a, b, c] = [CHR ''0'', a, b, c]"
  "zero_pad 4 [a, b, c, d] = [a, b, c, d]"
  "zero_pad 4 (a # b # c # d # s) = a # b # c # d # s"
  by (simp_all add: zero_pad_def numeral_3_eq_3 numeral_2_eq_2)

lemma format_04d_below_10000:
  assumes "m < 10000"
  shows "format_04d (int m) =
           [digit_char (m div 1000), digit_char (m div 100 mod 10),
            digit_char (m div 10 mod 10), digit_char (m mod 10)]"
proof -
  have e: "m div 10 div 10 = m div 100" "m div 10 div 10 div 10 = m div 1000"
    "m div 100 div 10 = m div 1000"
    by (simp_all add: div_mult2_eq [symmetric])
  consider "m < 10" | "10 \<le> m" "m < 100" | "100 \<le> m" "m < 1000" | "1000 \<le> m"
    by linarith
  then show ?thesis
  proof cases
    case 1
    have d: "digits m = [digit_char m]" using 1 by (rule digits_small(1))
    show ?thesis using 1
      by (simp add: format_04d_def zero_pad_4 d digit_char_0)
  next
    case 2
    have "m div 10 < 10" using 2 by simp
    then have "digits (m div 10) = [digit_char (m div 10)]" by (rule digits_small(1))
    with digits_small(2) [OF 2(1)]
    have d: "digits m = [digit_char (m div 10), digit_char (m mod 10)]" by simp
    have z: "m div 1000 = 0" "m div 100 = 0" "m div 10 mod 10 = m div 10" using 2 by simp_all
    show ?thesis
      by (simp add: format_04d_def zero_pad_4 d z digit_char_0)
  next
    case 3
    have a: "10 \<le> m" "10 \<le> m div 10" "m div 10 div 10 < 10" using 3 by simp_all
    from digits_small(1) [OF a(3)] digits_small(2) [OF a(2)] digits_small(2) [OF a(1)]
    have d: "digits m = [digit_char (m div 100), digit_char (m div 10 mod 10), digit_char (m mod 10)]"
      by (simp add: e)
    have z: "m div 1000 = 0" "m div 100 mod 10 = m div 100" using 3 by simp_all
    show ?thesis
      by (simp add: format_04d_def zero_pad_4 d z digit_char_0)
  next
    case 4
    have a: "10 \<le> m" "10 \<le> m div 10" "10 \<le> m div 10 div 10" "m div 10 div 10 div 10 < 10"
      using 4 assms by simp_all
    from digits_small(1) [OF a(4)] digits_small(2) [OF a(3)] digits_small(2) [OF a(2)]
      digits_small(2) [OF a(1)]
    have d: "digits m = [digit_char (m div 1000), digit_char (m div 100 mod 10),
                         digit_char (m div 10 mod 10), digit_char (m mod 10)]"
      by (simp add: e)
    show ?thesis
      by (simp add: format_04d_def zero_pad_4 d)
  qed
qed

lemma decimal_4:
  "(a::nat) = 1000 * (a div 1000) + 100 * (a div 100 mod 10) + 10 * (a div 10 mod 10) + a mod 10"
proof -
  have e: "a div 10 div 10 = a div 100" "a div 100 div 10 = a div 1000"
    by (simp_all add: div_mult2_eq [symmetric])
  have 1: "a = 10 * (a div 10) + a mod 10" by simp
  have 2: "a div 10 = 10 * (a div 100) + a div 10 mod 10"
    using div_mult_mod_eq [of "a div 10" 10] unfolding e by simp
  have 3: "a div 100 = 10 * (a div 1000) + a div 100 mod 10"
    using div_mult_mod_eq [of "a div 100" 10] unfolding e by simp
  show ?thesis using 1 2 3 by linarith
qed

lemma lex_4:
  fixes a3 a2 a1 a0 b3 b2 b1 b0 :: nat
  assumes "1000 * a3 + 100 * a2 + 10 * a1 + a0 < 1000 * b3 + 100 * b2 + 10 * b1 + b0"
    and "a2 < 10" "a1 < 10" "a0 < 10" "b2 < 10" "b1 < 10" "b0 < 10"
  shows "a3 < b3 \<or> a3 = b3 \<and> (a2 < b2 \<or> a2 = b2 \<and> (a1 < b1 \<or> a1 = b1 \<and> a0 < b0))"
proof -
  have 3: "a3 \<le> b3" using assms by linarith
  have 2: "a2 \<le> b2" if "a3 = b3" using assms that by linarith
  have 1: "a1 \<le> b1" if "a3 = b3" "a2 = b2" using assms that by linarith
  have 0: "a0 < b0" if "a3 = b3" "a2 = b2" "a1 = b1" using assms that by linarith
  show ?thesis using 0 1 2 3 by (metis le_neq_implies_less)
qed

lemma format_04d_less:
  assumes "a < b" "b < 10000"
  shows "format_04d (int a) < format_04d (int b)"
proof -
  have la: "a < 10000" using assms by simp
  define a3 a2 a1 a0 where "a3 = a div 1000" and "a2 = a div 100 mod 10"
    and "a1 = a div 10 mod 10" and "a0 = a mod 10"
  define b3 b2 b1 b0 where "b3 = b div 1000" and "b2 = b div 100 mod 10"
    and "b1 = b div 10 mod 10" and "b0 = b mod 10"
  have da: "a = 1000 * a3 + 100 * a2 + 10 * a1 + a0"
    unfolding a3_def a2_def a1_def a0_def by (rule decimal_4)
  have db: "b = 1000 * b3 + 100 * b2 + 10 * b1 + b0"
    unfolding b3_def b2_def b1_def b0_def by (rule decimal_4)
  have ra: "a3 < 10" "a2 < 10" "a1 < 10" "a0 < 10"
    using la unfolding a3_def a2_def a1_def a0_def by simp_all
  have rb: "b3 < 10" "b2 < 10" "b1 < 10" "b0 < 10"
    using assms(2) unfolding b3_def b2_def b1_def b0_def by simp_all
  have fa: "format_04d (int a) = [digit_char a3, digit_char a2, digit_char a1, digit_char a0]"
    unfolding a3_def a2_def a1_def a0_def using la by (rule format_04d_below_10000)
  have fb: "format_04d (int b) = [digit_char b3, digit_char b2, digit_char b1, digit_char b0]"
    unfolding b3_def b2_def b1_def b0_def using assms(2) by (rule format_04d_below_10000)
  have "1000 * a3 + 100 * a2 + 10 * a1 + a0 < 1000 * b3 + 100 * b2 + 10 * b1 + b0"
    using assms(1) da db by simp
  then have "a3 < b3 \<or> a3 = b3 \<and> (a2 < b2 \<or> a2 = b2 \<and> (a1 < b1 \<or> a1 = b1 \<and> a0 < b0))"
    using ra rb by (intro lex_4) simp_all
  then show ?thesis
    unfolding fa fb by (simp add: digit_char_less digit_char_eq ra rb)
qed

lemma length_format_04d: "m < 10000 \<Longrightarrow> length (format_04d (int m)) = 4"
  by (simp add: format_04d_below_10000)

lemma format_04d_inj:
  assumes "0 \<le> a" "0 \<le> b" "format_04d a = format_04d b"
  shows "a = b"
proof -
  have "nat a = nat b"
    using digits_value_format_04d [OF assms(1)] digits_value_format_04d [OF assms(2)] assms(3)
    by simp
  with assms show ?thesis by simp
qed

subsection \<open>The identifiers of a table\<close>

lemma project_ids_rows_from:
  "project_ids (rows_from R is st) = map (\<lambda>i. ''PRJ_'' @ format_04d (int i + 1)) is"
proof (induction "is" arbitrary: st)
  case Nil
  then show ?case by (simp add: project_ids_def)
next
  case (Cons i "is")
  obtain ps ns where st: "st = (ps, ns)" by (cases st)
  have "field (fst (project_row R i st)) ''project_id'' =
          Some (VStr (''PRJ_'' @ format_04d (int i + 1)))"
  proof (cases rule: project_row_cases [of R ps ns i])
    case draws
    show ?thesis unfolding st draws(19) by (simp add: field_def)
  qed
  moreover have "project_ids (rows_from R is (snd (project_row R i st))) =
      map (\<lambda>i. ''PRJ_'' @ format_04d (int i + 1)) is"
    by (rule Cons.IH)
  ultimately show ?case by (simp add: project_ids_def)
qed

lemma distinct_ids: "distinct (map (\<lambda>i. ''PRJ_'' @ format_04d (int i + 1)) [0..<k])"
proof -
  have "inj_on (\<lambda>i. ''PRJ_'' @ format_04d (int i + 1)) (set [0..<k])"
  proof (rule inj_onI)
    fix x y
    assume "''PRJ_'' @ format_04d (int x + 1) = ''PRJ_'' @ format_04d (int y + 1)"
    then have "format_04d (int x + 1) = format_04d (int y + 1)" by simp
    then have "int x + 1 = int y + 1" by (intro format_04d_inj) simp_all
    then show "x = y" by simp
  qed
  then show ?thesis by (simp add: distinct_map)
qed

lemma sorted_ids:
  assumes "k \<le> 9999"
  shows "sorted_wrt (<) (map (\<lambda>i. ''PRJ_'' @ format_04d (int i + 1)) [0..<k])"
proof -
  have "''PRJ_'' @ format_04d (int i + 1) < ''PRJ_'' @ format_04d (int j + 1)"
    if "i < j" "j < k" for i j
  proof -
    have "format_04d (int (Suc i)) < format_04d (int (Suc j))"
      using that assms by (intro format_04d_less) simp_all
    then show ?thesis by (simp add: add.commute)
  qed
  then show ?thesis
    by (simp add: sorted_wrt_map sorted_wrt_iff_nth_less)
qed

lemma digit_char_1_9:
  "digit_char 1 = CHR ''1''" "digit_char (Suc 0) = CHR ''1''" "digit_char 9 = CHR ''9''"
  by code_simp+

lemma format_04d_9999: "format_04d 9999 = ''9999''"
  using format_04d_below_10000 [of 9999] by (simp add: digit_char_1_9)

lemma format_04d_10000: "format_04d 10000 = ''10000''"
proof -
  have "digits 10000 = ''10000''"
    using digits_small(2) [of 10000] digits_small(2) [of 1000] digits_small(2) [of 100]
      digits_small(2) [of 10] digits_small(1) [of 1]
    by (simp add: digit_char_0 digit_char_1_9)
  then show ?thesis by (simp add: format_04d_def zero_pad_4)
qed

lemma generated_ids:
  "project_ids (fst (projr (generate_project_data R n st))) =
     map (\<lambda>i. ''PRJ_'' @ format_04d (int i + 1)) [0..<nat n]"
  by (simp add: generate_project_data_eq project_ids_rows_from)

lemma generated_id_nth:
  assumes "i < nat n"
  shows "project_ids (fst (projr (generate_project_data R n st))) ! i =
           ''PRJ_'' @ format_04d (int i + 1)"
  using assms unfolding generated_ids by simp

subsection \<open>The small generator across two calls\<close>



subsection \<open>The loop body does not depend on the index, identifier apart\<close>







subsection \<open>The risk score and the success probability in double arithmetic\<close>

lemma fl_steps:
  "fl (1 / 5) = 3602879701896397 / 18014398509481984"
  "fl (3 / 20) = 5404319552844595 / 36028797018963968"
  "fl (1 / 10) = 3602879701896397 / 36028797018963968"
  "fl (1 / 20) = 3602879701896397 / 72057594037927936"
  "fl 3 = 3"
  "fl (10808639105689191 / 18014398509481984) = 1351079888211149 / 2251799813685248"
  "fl (16212958658533785 / 36028797018963968) = 2026619832316723 / 4503599627370496"
  "fl (10808639105689191 / 36028797018963968) = 1351079888211149 / 4503599627370496"
  "fl (10808639105689191 / 72057594037927936) = 1351079888211149 / 9007199254740992"
  "fl (4728779608739021 / 4503599627370496) = 4728779608739021 / 4503599627370496"
  "fl (7430939385161319 / 4503599627370496) = 7430939385161319 / 4503599627370496"
  "fl (4728779608739021 / 2251799813685248) = 4728779608739021 / 2251799813685248"
  "fl (11484179049794765 / 4503599627370496) = 2871044762448691 / 1125899906842624"
  "fl (12835258938005913 / 4503599627370496) = 1604407367250739 / 562949953421312"
  "fl (27021597764222973 / 9007199254740992) = 6755399441055743 / 2251799813685248"
  "fl (12610078956637389 / 36028797018963968) = 3152519739159347 / 9007199254740992"
  "fl (9907919180215091 / 18014398509481984) = 2476979795053773 / 4503599627370496"
  "fl (25220157913274779 / 36028797018963968) = 6305039478318695 / 9007199254740992"
  "fl (30624477466119375 / 36028797018963968) = 1914029841632461 / 2251799813685248"
  "fl (34227357168015773 / 36028797018963968) = 8556839292003943 / 9007199254740992"
  "fl (72057594037927941 / 72057594037927936) = 1"
proof -
  show "fl (1 / 5) = 3602879701896397 / 18014398509481984"
    by (rule fl_eval_num [where e = "- 3" and m = "7205759403792794"])
       (simp_all add: round_half_even_def)
  show "fl (3 / 20) = 5404319552844595 / 36028797018963968"
    by (rule fl_eval_num [where e = "- 3" and m = "5404319552844595"])
       (simp_all add: round_half_even_def)
  show "fl (1 / 10) = 3602879701896397 / 36028797018963968"
    by (rule fl_eval_num [where e = "- 4" and m = "7205759403792794"])
       (simp_all add: round_half_even_def)
  show "fl (1 / 20) = 3602879701896397 / 72057594037927936"
    by (rule fl_eval_num [where e = "- 5" and m = "7205759403792794"])
       (simp_all add: round_half_even_def)
  show "fl 3 = 3"
    by (rule fl_eval_num [where e = "1" and m = "6755399441055744"])
       (simp_all add: round_half_even_def)
  show "fl (10808639105689191 / 18014398509481984) = 1351079888211149 / 2251799813685248"
    by (rule fl_eval_num [where e = "- 1" and m = "5404319552844596"])
       (simp_all add: round_half_even_def)
  show "fl (16212958658533785 / 36028797018963968) = 2026619832316723 / 4503599627370496"
    by (rule fl_eval_num [where e = "- 2" and m = "8106479329266892"])
       (simp_all add: round_half_even_def)
  show "fl (10808639105689191 / 36028797018963968) = 1351079888211149 / 4503599627370496"
    by (rule fl_eval_num [where e = "- 2" and m = "5404319552844596"])
       (simp_all add: round_half_even_def)
  show "fl (10808639105689191 / 72057594037927936) = 1351079888211149 / 9007199254740992"
    by (rule fl_eval_num [where e = "- 3" and m = "5404319552844596"])
       (simp_all add: round_half_even_def)
  show "fl (4728779608739021 / 4503599627370496) = 4728779608739021 / 4503599627370496"
    by (rule fl_eval_num [where e = "0" and m = "4728779608739021"])
       (simp_all add: round_half_even_def)
  show "fl (7430939385161319 / 4503599627370496) = 7430939385161319 / 4503599627370496"
    by (rule fl_eval_num [where e = "0" and m = "7430939385161319"])
       (simp_all add: round_half_even_def)
  show "fl (4728779608739021 / 2251799813685248) = 4728779608739021 / 2251799813685248"
    by (rule fl_eval_num [where e = "1" and m = "4728779608739021"])
       (simp_all add: round_half_even_def)
  show "fl (11484179049794765 / 4503599627370496) = 2871044762448691 / 1125899906842624"
    by (rule fl_eval_num [where e = "1" and m = "5742089524897382"])
       (simp_all add: round_half_even_def)
  show "fl (12835258938005913 / 4503599627370496) = 1604407367250739 / 562949953421312"
    by (rule fl_eval_num [where e = "1" and m = "6417629469002956"])
       (simp_all add: round_half_even_def)
  show "fl (27021597764222973 / 9007199254740992) = 6755399441055743 / 2251799813685248"
    by (rule fl_eval_num [where e = "1" and m = "6755399441055743"])
       (simp_all add: round_half_even_def)
  show "fl (12610078956637389 / 36028797018963968) = 3152519739159347 / 9007199254740992"
    by (rule fl_eval_num [where e = "- 2" and m = "6305039478318694"])
       (simp_all add: round_half_even_def)
  show "fl (9907919180215091 / 18014398509481984) = 2476979795053773 / 4503599627370496"
    by (rule fl_eval_num [where e = "- 1" and m = "4953959590107546"])
       (simp_all add: round_half_even_def)
  show "fl (25220157913274779 / 36028797018963968) = 6305039478318695 / 9007199254740992"
    by (rule fl_eval_num [where e = "- 1" and m = "6305039478318695"])
       (simp_all add: round_half_even_def)
  show "fl (30624477466119375 / 36028797018963968) = 1914029841632461 / 2251799813685248"
    by (rule fl_eval_num [where e = "- 1" and m = "7656119366529844"])
       (simp_all add: round_half_even_def)
  show "fl (34227357168015773 / 36028797018963968) = 8556839292003943 / 9007199254740992"
    by (rule fl_eval_num [where e = "- 1" and m = "8556839292003943"])
       (simp_all add: round_half_even_def)
  show "fl (72057594037927941 / 72057594037927936) = 1"
    by (rule fl_eval_num [where e = "0" and m = "4503599627370496"])
       (simp_all add: round_half_even_def)
qed

lemma risk_score_3: "risk_score 7 7 7 3 7 30 30 = 6755399441055743 / 2251799813685248"
  by (simp add: risk_score_def fadd_def fsub_def fmul_def fdiv_def fl_steps)

lemma weights_double_sum:
  "fadd (fadd (fadd (fadd (fadd (fadd (fl 0.2) (fl 0.15)) (fl 0.2)) (fl 0.15)) (fl 0.15))
       (fl 0.10)) (fl 0.05) = 1"
  by (simp add: fadd_def fl_steps)










section \<open>The claims\<close>

text \<open>
  C1. For every record of the table \<^verbatim>\<open>generate_project_data(n)\<close> returns, the budget lies
  between 50 and 5000, the team size between 3 and 50, the planned duration between 1 and
  24, the actual duration is at least 1, \<^verbatim>\<open>success\<close> is 0 or 1 and the quality score lies
  between 0 and 100. The bound on the quality score rests on numpy's beta sampler
  returning a value of the unit interval, the hypothesis on \<open>np_beta\<close>; the other bounds
  hold for every sampler.
\<close>

theorem generated_fields_in_range:
  assumes "\<forall>a b s. 0 \<le> fst (np_beta R a b s) \<and> fst (np_beta R a b s) \<le> 1"
    and "generate_project_data R n st = Inr (tbl, st')"
    and "r \<in> set tbl"
  shows "\<exists>budget team_size planned actual success quality.
           field r ''budget_thousands'' = Some (VFloat budget) \<and>
           50 \<le> budget \<and> budget \<le> 5000 \<and>
           field r ''team_size'' = Some (VInt team_size) \<and>
           3 \<le> team_size \<and> team_size \<le> 50 \<and>
           field r ''planned_duration_months'' = Some (VInt planned) \<and>
           1 \<le> planned \<and> planned \<le> 24 \<and>
           field r ''actual_duration_months'' = Some (VInt actual) \<and> 1 \<le> actual \<and>
           field r ''success'' = Some (VInt success) \<and> (success = 0 \<or> success = 1) \<and>
           field r ''quality_score'' = Some (VFloat quality) \<and>
           0 \<le> quality \<and> quality \<le> 100"
    (is "?P r")
proof -
  have row: "?P (fst (project_row R i s))" for i s
  proof (cases s)
    case (Pair ps ns)
    show ?thesis
    proof (rule project_row_cases [of R ps ns i])
      fix project_type ps1 industry ps2 x_budget n1 x_team n2 x_planned n3 x_scope n4
        x_stake n5 x_resource n6 x_technical n7 x_experience n8 change_requests n9
        dependencies n10 u ps3 success planned z n11 v n12 q n13
      assume s: "success = (if u < success_probability R
                  (risk_score (py_round (fmul x_scope 10) 1) (py_round (fmul x_stake 10) 1)
                     (py_round (fmul x_resource 10) 1) (py_round x_technical 1)
                     (py_round (fmul x_experience 10) 1) change_requests dependencies)
           then 1 else 0)"
        and p: "planned = max 1 (min (py_int x_planned) 24)"
        and q: "np_beta R (if success \<noteq> 0 then 8 else 3) (if success \<noteq> 0 then 2 else 5) n12 = (q, n13)"
        and row: "project_row R i (ps, ns) =
       ([(''project_id'', VStr (''PRJ_'' @ format_04d (int i + 1))),
         (''project_type'', VStr project_type),
         (''industry'', VStr industry),
         (''budget_thousands'', VFloat (max 50 (min (py_round (fmul x_budget 10) 2) 5000))),
         (''team_size'', VInt (max 3 (min (py_int x_team) 50))),
         (''planned_duration_months'', VInt planned),
         (''actual_duration_months'', VInt (max 1 (planned + py_int z))),
         (''scope_clarity_score'', VFloat (py_round (fmul x_scope 10) 1)),
         (''stakeholder_engagement'', VFloat (py_round (fmul x_stake 10) 1)),
         (''resource_availability'', VFloat (py_round (fmul x_resource 10) 1)),
         (''technical_complexity'', VFloat (py_round x_technical 1)),
         (''team_experience_level'', VFloat (py_round (fmul x_experience 10) 1)),
         (''change_requests'', VInt change_requests),
         (''external_dependencies'', VInt dependencies),
         (''budget_variance_percent'', VFloat (py_round v 1)),
         (''quality_score'', VFloat (py_round (fmul q 100) 1)),
         (''success'', VInt success)],
        (ps3, n13))"
      from assms(1) q have "0 \<le> q \<and> q \<le> 1"
        by (metis fst_conv)
      then have "0 \<le> fmul q 100 \<and> fmul q 100 \<le> 100"
        by (simp add: fmul_100_bounds)
      then have "0 \<le> py_round (fmul q 100) 1 \<and> py_round (fmul q 100) 1 \<le> 100"
        by (simp add: py_round_1_bounds del: One_nat_def)
      moreover have "success = 0 \<or> success = 1" by (simp add: s)
      moreover have "1 \<le> planned \<and> planned \<le> 24" by (simp add: p)
      ultimately show ?thesis
        by (simp add: Pair row field_def)
    qed
  qed
  from assms(2) have "tbl = rows_from R [0..<nat n] st"
    by (simp add: generate_project_data_eq)
  with assms(3) show ?thesis
    using rows_from_all [of "?P" R r "[0..<nat n]" st] row by blast
qed

theorem generated_fields_in_range_witness:
  "(\<forall>a b s. 0 \<le> fst (np_beta demo a b s) \<and> fst (np_beta demo a b s) \<le> 1) \<and>
   generate_project_data demo 2 (0, 0) =
     Inr ([fst (project_row demo 0 (0, 0)), fst (project_row demo (Suc 0) (3, 13))], (6, 26)) \<and>
   (\<exists>budget team_size planned actual success quality.
      field (fst (project_row demo (Suc 0) (3, 13))) ''budget_thousands'' = Some (VFloat budget) \<and>
      50 \<le> budget \<and> budget \<le> 5000 \<and>
      field (fst (project_row demo (Suc 0) (3, 13))) ''team_size'' = Some (VInt team_size) \<and>
      3 \<le> team_size \<and> team_size \<le> 50 \<and>
      field (fst (project_row demo (Suc 0) (3, 13))) ''planned_duration_months'' = Some (VInt planned) \<and>
      1 \<le> planned \<and> planned \<le> 24 \<and>
      field (fst (project_row demo (Suc 0) (3, 13))) ''actual_duration_months'' = Some (VInt actual) \<and>
      1 \<le> actual \<and>
      field (fst (project_row demo (Suc 0) (3, 13))) ''success'' = Some (VInt success) \<and>
      (success = 0 \<or> success = 1) \<and>
      field (fst (project_row demo (Suc 0) (3, 13))) ''quality_score'' = Some (VFloat quality) \<and>
      0 \<le> quality \<and> quality \<le> 100)"
proof -
  have b: "\<forall>a b s. 0 \<le> fst (np_beta demo a b s) \<and> fst (np_beta demo a b s) \<le> 1"
    by (simp add: demo_def)
  have m: "fst (project_row demo (Suc 0) (3, 13)) \<in>
             set [fst (project_row demo 0 (0, 0)), fst (project_row demo (Suc 0) (3, 13))]"
    by simp
  show ?thesis
    using b demo_table_2 generated_fields_in_range [OF b demo_table_2 m] by blast
qed

text \<open>
  C2. In every record the composite risk score is
  0.2 (10 - scope clarity) + 0.15 (10 - stakeholder engagement) +
  0.2 (10 - resource availability) + 0.15 technical complexity +
  0.15 (10 - team experience) + 0.10 (change requests / 10) +
  0.05 (external dependencies / 10), each operation in double arithmetic and the sum
  taken from left to right, and it is this score of the record's own fields that decides
  \<^verbatim>\<open>success\<close> against the uniform draw. The seven weights add up to 1, as decimal numbers
  and as doubles added from left to right. The score itself is rounded: seven terms that
  are all 3 give a score one unit in the last place below 3.
\<close>

theorem risk_score_weighted_sum:
  "risk_score sc se ra tc te cr dep =
     fadd (fadd (fadd (fadd (fadd (fadd
       (fmul (fl 0.2) (fsub 10 sc))
       (fmul (fl 0.15) (fsub 10 se)))
       (fmul (fl 0.2) (fsub 10 ra)))
       (fmul (fl 0.15) tc))
       (fmul (fl 0.15) (fsub 10 te)))
       (fmul (fl 0.10) (fdiv (of_int cr) 10)))
       (fmul (fl 0.05) (fdiv (of_int dep) 10)) \<and>
   (0.2 + 0.15 + 0.2 + 0.15 + 0.15 + 0.10 + 0.05 :: real) = 1 \<and>
   fadd (fadd (fadd (fadd (fadd (fadd (fl 0.2) (fl 0.15)) (fl 0.2)) (fl 0.15)) (fl 0.15))
       (fl 0.10)) (fl 0.05) = 1 \<and>
   risk_score 7 7 7 3 7 30 30 = 3 - 2 powi (- 51) \<and>
   (\<exists>scope stake resource technical experience changes deps u.
      field (fst (project_row R i st)) ''scope_clarity_score'' = Some (VFloat scope) \<and>
      field (fst (project_row R i st)) ''stakeholder_engagement'' = Some (VFloat stake) \<and>
      field (fst (project_row R i st)) ''resource_availability'' = Some (VFloat resource) \<and>
      field (fst (project_row R i st)) ''technical_complexity'' = Some (VFloat technical) \<and>
      field (fst (project_row R i st)) ''team_experience_level'' = Some (VFloat experience) \<and>
      field (fst (project_row R i st)) ''change_requests'' = Some (VInt changes) \<and>
      field (fst (project_row R i st)) ''external_dependencies'' = Some (VInt deps) \<and>
      (Random, VFloat u) \<in> set (rand_draws R i st) \<and>
      field (fst (project_row R i st)) ''success'' =
        Some (VInt (if u < success_probability R
                          (risk_score scope stake resource technical experience changes deps)
                    then 1 else 0)))"
proof -
  have f: "risk_score sc se ra tc te cr dep =
     fadd (fadd (fadd (fadd (fadd (fadd
       (fmul (fl 0.2) (fsub 10 sc))
       (fmul (fl 0.15) (fsub 10 se)))
       (fmul (fl 0.2) (fsub 10 ra)))
       (fmul (fl 0.15) tc))
       (fmul (fl 0.15) (fsub 10 te)))
       (fmul (fl 0.10) (fdiv (of_int cr) 10)))
       (fmul (fl 0.05) (fdiv (of_int dep) 10))"
    by (simp add: risk_score_def fmul_def mult.commute)
  have w: "(0.2 + 0.15 + 0.2 + 0.15 + 0.15 + 0.10 + 0.05 :: real) = 1" by simp
  have k: "risk_score 7 7 7 3 7 30 30 = 3 - 2 powi (- 51)"
    unfolding risk_score_3 by simp
  obtain ps ns where st: "st = (ps, ns)" by (cases st)
  have r: "(\<exists>scope stake resource technical experience changes deps u.
      field (fst (project_row R i st)) ''scope_clarity_score'' = Some (VFloat scope) \<and>
      field (fst (project_row R i st)) ''stakeholder_engagement'' = Some (VFloat stake) \<and>
      field (fst (project_row R i st)) ''resource_availability'' = Some (VFloat resource) \<and>
      field (fst (project_row R i st)) ''technical_complexity'' = Some (VFloat technical) \<and>
      field (fst (project_row R i st)) ''team_experience_level'' = Some (VFloat experience) \<and>
      field (fst (project_row R i st)) ''change_requests'' = Some (VInt changes) \<and>
      field (fst (project_row R i st)) ''external_dependencies'' = Some (VInt deps) \<and>
      (Random, VFloat u) \<in> set (rand_draws R i st) \<and>
      field (fst (project_row R i st)) ''success'' =
        Some (VInt (if u < success_probability R
                          (risk_score scope stake resource technical experience changes deps)
                    then 1 else 0)))"
  proof (cases rule: project_row_cases [of R ps ns i])
    case draws
    show ?thesis
      unfolding st draws(19) draws(20) draws(14) by (simp add: field_def del: One_nat_def)
  qed
  from f w weights_double_sum k r show ?thesis by blast
qed





text \<open>
  C4, as the specification states it: the duration noise is rounded to the nearest integer
  before it is added to the planned duration. The first record of the small generator
  succeeds, its planned duration is 6 and its noise, the eleventh numpy draw, is 1.7:
  rounding gives 8 months, the record has 7.
\<close>

theorem duration_noise_rounded_counterexample:
  "field (fst (project_row demo 0 (0, 0))) ''success'' = Some (VInt 1) \<and>
   field (fst (project_row demo 0 (0, 0))) ''planned_duration_months'' = Some (VInt 6) \<and>
   np_draws demo 0 (0, 0) ! 10 = (Normal 0 2, VFloat (17 / 10)) \<and>
   actual_duration_spec 6 (17 / 10) = 8 \<and>
   field (fst (project_row demo 0 (0, 0))) ''actual_duration_months'' = Some (VInt 7) \<and>
   field (fst (project_row demo 0 (0, 0))) ''actual_duration_months'' \<noteq>
     Some (VInt (actual_duration_spec 6 (17 / 10)))"
proof -
  have a: "actual_duration_spec 6 (17 / 10) = 8"
    by (simp add: actual_duration_spec_def round_half_even_def)
  have b: "np_draws demo 0 (0, 0) ! 10 = (Normal 0 2, VFloat (17 / 10))"
  proof (cases rule: project_row_cases [of demo 0 0 0])
    case (draws project_type ps1 industry ps2 x_budget n1 x_team n2 x_planned n3 x_scope n4
      x_stake n5 x_resource n6 x_technical n7 x_experience n8 change_requests n9 dependencies
      n10 u ps3 success planned z n11 v n12 q n13)
    from draws(19) have "success = 1" by (simp add: demo_row_0)
    with draws(16) draws(21) show ?thesis by (simp add: demo_def)
  qed
  show ?thesis using a b by (simp add: demo_row_0 field_def)
qed

text \<open>
  C4, amended: the duration noise is truncated toward zero, as \<^verbatim>\<open>int\<close> does, before it
  is added to the planned duration. The noise is the eleventh numpy draw of the record, a
  normal draw of mean 0 and deviation 2 when \<^verbatim>\<open>success\<close> is 1 and of mean 5 and
  deviation 3 when it is 0; the sum is floored at 1.
\<close>

theorem duration_noise_truncated:
  "\<exists>planned success z.
     field (fst (project_row R i st)) ''planned_duration_months'' = Some (VInt planned) \<and>
     field (fst (project_row R i st)) ''success'' = Some (VInt success) \<and>
     (success = 0 \<or> success = 1) \<and>
     np_draws R i st ! 10 =
       (if success = 1 then (Normal 0 2, VFloat z) else (Normal 5 3, VFloat z)) \<and>
     py_int z = (if 0 \<le> z then \<lfloor>z\<rfloor> else \<lceil>z\<rceil>) \<and>
     field (fst (project_row R i st)) ''actual_duration_months'' =
       Some (VInt (max 1 (planned + py_int z)))"
proof -
  obtain ps ns where st: "st = (ps, ns)" by (cases st)
  show ?thesis
  proof (cases rule: project_row_cases [of R ps ns i])
    case (draws project_type ps1 industry ps2 x_budget n1 x_team n2 x_planned n3 x_scope n4
      x_stake n5 x_resource n6 x_technical n7 x_experience n8 change_requests n9 dependencies
      n10 u ps3 success planned z n11 v n12 q n13)
    have s: "success = 0 \<or> success = 1" by (simp add: draws(14))
    then show ?thesis
      unfolding st draws(19) draws(21) by (auto simp add: field_def py_int_def)
  qed
qed

text \<open>
  C5, as the specification states it: for every \<open>n\<close> the identifiers are four digits after
  \<^verbatim>\<open>PRJ_\<close> and strictly increasing in generation order. In a table of 10000 records the
  last identifier has five digits, and as a string it is below the one before it.
\<close>

theorem ids_increasing_counterexample:
  "project_ids (fst (projr (generate_project_data demo 10000 (0, 0)))) ! 9998 = ''PRJ_9999'' \<and>
   project_ids (fst (projr (generate_project_data demo 10000 (0, 0)))) ! 9999 = ''PRJ_10000'' \<and>
   (''PRJ_10000'' :: string) < ''PRJ_9999'' \<and>
   \<not> sorted_wrt (<) (project_ids (fst (projr (generate_project_data demo 10000 (0, 0)))))"
proof -
  let ?ids = "project_ids (fst (projr (generate_project_data demo 10000 (0, 0))))"
  have "?ids ! 9998 = ''PRJ_'' @ format_04d (int 9998 + 1)"
    by (rule generated_id_nth) simp
  then have a: "?ids ! 9998 = ''PRJ_9999''" by (simp add: format_04d_9999)
  have "?ids ! 9999 = ''PRJ_'' @ format_04d (int 9999 + 1)"
    by (rule generated_id_nth) simp
  then have b: "?ids ! 9999 = ''PRJ_10000''" by (simp add: format_04d_10000)
  have c: "(''PRJ_10000'' :: string) < ''PRJ_9999''" by simp
  have l: "length ?ids = 10000" unfolding generated_ids by simp
  have d: "\<not> sorted_wrt (<) ?ids"
  proof
    assume "sorted_wrt (<) ?ids"
    moreover have "(9998 :: nat) < 9999" by simp
    moreover have "9999 < length ?ids" unfolding l by simp
    ultimately have "?ids ! 9998 < ?ids ! 9999" by (rule sorted_wrt_nth_less)
    then show False unfolding a b by simp
  qed
  from a b c d show ?thesis by blast
qed

text \<open>
  C5, amended: for every \<open>n\<close>, the identifier of the record of index \<open>i\<close> is \<^verbatim>\<open>PRJ_\<close>
  followed by \<open>i + 1\<close> in decimal, padded with zeros to at least four digits. The
  identifiers of a table are pairwise different, and the number after \<^verbatim>\<open>PRJ_\<close> is the
  position of the record, so it is strictly increasing in generation order. For \<open>n\<close> up
  to 9999 the identifiers have exactly four digits and are strictly increasing as strings
  too.
\<close>

theorem ids_follow_position:
  assumes "generate_project_data R n st = Inr (tbl, st')"
  shows "project_ids tbl = map (\<lambda>i. ''PRJ_'' @ format_04d (int i + 1)) [0..<nat n] \<and>
         (\<forall>i < nat n. field (tbl ! i) ''project_id'' =
                        Some (VStr (''PRJ_'' @ zero_pad 4 (digits (i + 1))))) \<and>
         distinct (project_ids tbl) \<and>
         map (\<lambda>s. digits_value (drop 4 s)) (project_ids tbl) = map Suc [0..<nat n] \<and>
         sorted_wrt (<) (map (\<lambda>s. digits_value (drop 4 s)) (project_ids tbl)) \<and>
         (n \<le> 9999 \<longrightarrow>
            sorted_wrt (<) (project_ids tbl) \<and> (\<forall>s \<in> set (project_ids tbl). length s = 8))"
proof -
  from assms have t: "tbl = rows_from R [0..<nat n] st"
    by (simp add: generate_project_data_eq)
  have ids: "project_ids tbl = map (\<lambda>i. ''PRJ_'' @ format_04d (int i + 1)) [0..<nat n]"
    unfolding t by (rule project_ids_rows_from)
  have f: "field (tbl ! i) ''project_id'' = Some (VStr (''PRJ_'' @ zero_pad 4 (digits (i + 1))))"
    if "i < nat n" for i
  proof -
    obtain ps ns where s: "state_after R (take i [0..<nat n]) st = (ps, ns)"
      by (meson surj_pair)
    have "tbl ! i =
        fst (project_row R ([0..<nat n] ! i) (state_after R (take i [0..<nat n]) st))"
      unfolding t using that by (intro rows_from_nth) simp
    moreover have "[0..<nat n] ! i = i" using that by simp
    ultimately have "tbl ! i = fst (project_row R i (ps, ns))"
      by (simp only: s)
    moreover have "field (fst (project_row R i (ps, ns))) ''project_id'' =
        Some (VStr (''PRJ_'' @ format_04d (int i + 1)))"
    proof (cases rule: project_row_cases [of R ps ns i])
      case draws
      show ?thesis unfolding draws(19) by (simp add: field_def)
    qed
    moreover have "format_04d (int i + 1) = zero_pad 4 (digits (i + 1))"
      by (simp add: format_04d_def nat_add_distrib)
    ultimately show ?thesis by simp
  qed
  have d: "distinct (project_ids tbl)" unfolding ids by (rule distinct_ids)
  have v: "map (\<lambda>s. digits_value (drop 4 s)) (project_ids tbl) = map Suc [0..<nat n]"
  proof -
    have "digits_value (drop 4 (''PRJ_'' @ format_04d (int i + 1))) = Suc i" for i
      using digits_value_format_04d [of "int i + 1"] by simp
    then show ?thesis unfolding ids by simp
  qed
  have w: "sorted_wrt (<) (map (\<lambda>s. digits_value (drop 4 s)) (project_ids tbl))"
    unfolding v by (simp add: sorted_wrt_map sorted_wrt_iff_nth_less)
  have s: "sorted_wrt (<) (project_ids tbl) \<and> (\<forall>s \<in> set (project_ids tbl). length s = 8)"
    if "n \<le> 9999"
  proof -
    from that have k: "nat n \<le> 9999" by simp
    have "length (''PRJ_'' @ format_04d (int i + 1)) = 8" if "i < nat n" for i
    proof -
      have "length (format_04d (int (Suc i))) = 4"
        using that k by (intro length_format_04d) simp
      then show ?thesis by (simp add: add.commute)
    qed
    then have "\<forall>s \<in> set (project_ids tbl). length s = 8" unfolding ids by auto
    with sorted_ids [OF k] show ?thesis unfolding ids by simp
  qed
  from ids f d v w s show ?thesis by blast
qed

theorem ids_follow_position_witness:
  "generate_project_data demo 2 (0, 0) =
     Inr ([fst (project_row demo 0 (0, 0)), fst (project_row demo (Suc 0) (3, 13))], (6, 26)) \<and>
   (2 :: int) \<le> 9999 \<and>
   project_ids [fst (project_row demo 0 (0, 0)), fst (project_row demo (Suc 0) (3, 13))] =
     [''PRJ_0001'', ''PRJ_0002''] \<and>
   distinct (project_ids [fst (project_row demo 0 (0, 0)), fst (project_row demo (Suc 0) (3, 13))]) \<and>
   sorted_wrt (<)
     (project_ids [fst (project_row demo 0 (0, 0)), fst (project_row demo (Suc 0) (3, 13))])"
proof -
  have i: "project_ids [fst (project_row demo 0 (0, 0)), fst (project_row demo (Suc 0) (3, 13))] =
     [''PRJ_0001'', ''PRJ_0002'']"
    by (simp add: project_ids_def demo_row_0 demo_row_1 field_def)
  have h: "(2 :: int) \<le> 9999" by simp
  note T = ids_follow_position [OF demo_table_2]
  from T have d: "distinct
      (project_ids [fst (project_row demo 0 (0, 0)), fst (project_row demo (Suc 0) (3, 13))])"
    by blast
  from T h have s: "sorted_wrt (<)
      (project_ids [fst (project_row demo 0 (0, 0)), fst (project_row demo (Suc 0) (3, 13))])"
    by blast
  from demo_table_2 h i d s show ?thesis by blast
qed

text \<open>
  C6. For every \<open>n\<close> of at least 1, \<^verbatim>\<open>generate_project_data(n)\<close> returns a table of
  exactly \<open>n\<close> rows, and the keys of every row are the 17 field names of the data model,
  in its order and each once; so does the call with 500, the default.
\<close>

theorem table_has_n_rows_of_17_fields:
  assumes "1 \<le> n"
  shows "\<exists>tbl st'.
           generate_project_data R n st = Inr (tbl, st') \<and> int (length tbl) = n \<and>
           (\<forall>r \<in> set tbl.
              map fst r =
                [''project_id'', ''project_type'', ''industry'', ''budget_thousands'',
                 ''team_size'', ''planned_duration_months'', ''actual_duration_months'',
                 ''scope_clarity_score'', ''stakeholder_engagement'', ''resource_availability'',
                 ''technical_complexity'', ''team_experience_level'', ''change_requests'',
                 ''external_dependencies'', ''budget_variance_percent'', ''quality_score'',
                 ''success''] \<and>
              length r = 17 \<and> distinct (map fst r))"
proof -
  let ?P = "\<lambda>r :: row. map fst r =
                [''project_id'', ''project_type'', ''industry'', ''budget_thousands'',
                 ''team_size'', ''planned_duration_months'', ''actual_duration_months'',
                 ''scope_clarity_score'', ''stakeholder_engagement'', ''resource_availability'',
                 ''technical_complexity'', ''team_experience_level'', ''change_requests'',
                 ''external_dependencies'', ''budget_variance_percent'', ''quality_score'',
                 ''success''] \<and>
              length r = 17 \<and> distinct (map fst r)"
  have row: "?P (fst (project_row R i s))" for i s
  proof (cases s)
    case (Pair ps ns)
    show ?thesis
    proof (cases rule: project_row_cases [of R ps ns i])
      case draws
      show ?thesis unfolding Pair draws(19) by simp
    qed
  qed
  have "\<forall>r \<in> set (rows_from R [0..<nat n] st). ?P r"
    using rows_from_all [of ?P R _ "[0..<nat n]" st] row by blast
  moreover have "int (length (rows_from R [0..<nat n] st)) = n"
    using assms by (simp add: length_rows_from)
  ultimately show ?thesis
    unfolding generate_project_data_eq by blast
qed

theorem table_has_n_rows_of_17_fields_witness:
  "(1 :: int) \<le> 2 \<and>
   generate_project_data demo 2 (0, 0) =
     Inr ([fst (project_row demo 0 (0, 0)), fst (project_row demo (Suc 0) (3, 13))], (6, 26)) \<and>
   int (length [fst (project_row demo 0 (0, 0)), fst (project_row demo (Suc 0) (3, 13))]) = 2 \<and>
   map fst (fst (project_row demo (Suc 0) (3, 13))) =
     [''project_id'', ''project_type'', ''industry'', ''budget_thousands'',
      ''team_size'', ''planned_duration_months'', ''actual_duration_months'',
      ''scope_clarity_score'', ''stakeholder_engagement'', ''resource_availability'',
      ''technical_complexity'', ''team_experience_level'', ''change_requests'',
      ''external_dependencies'', ''budget_variance_percent'', ''quality_score'',
      ''success''] \<and>
   length (fst (project_row demo (Suc 0) (3, 13))) = 17"
proof -
  have h: "(1 :: int) \<le> 2" by simp
  from table_has_n_rows_of_17_fields [OF h, of demo "(0, 0)"]
  show ?thesis unfolding demo_table_2 by simp
qed

text \<open>
  C7, as the specification states it: a call with a record count of 0 or less is rejected
  with an error. With 0 and with -3 the function returns the empty table, and the two
  sources are left as they were.
\<close>

theorem nonpositive_count_rejected_counterexample:
  "generate_project_data demo 0 (0, 0) = Inr ([], (0, 0)) \<and>
   generate_project_data demo (- 3) (0, 0) = Inr ([], (0, 0)) \<and>
   \<not> isl (generate_project_data demo 0 (0, 0)) \<and>
   \<not> isl (generate_project_data demo (- 3) (0, 0))"
  by (simp add: generate_project_data_def)

text \<open>
  C7, amended: a call with a record count of 0 or less raises no error; it returns the
  empty table and draws nothing from either source.
\<close>

theorem nonpositive_count_gives_empty_table:
  assumes "n \<le> 0"
  shows "generate_project_data R n st = Inr ([], st)"
  using assms by (simp add: generate_project_data_def)

theorem nonpositive_count_gives_empty_table_witness:
  "(- 3 :: int) \<le> 0 \<and> generate_project_data demo (- 3) (7, 11) = Inr ([], (7, 11))"
proof -
  have h: "(- 3 :: int) \<le> 0" by simp
  from nonpositive_count_gives_empty_table [OF h, of demo "(7, 11)"] h
  show ?thesis by simp
qed

text \<open>
  C9, as the specification states it: the draws of both parameterizations occur in every
  record. The first record of the small generator succeeds; its thirteen numpy draws end
  with those of the success branch, and no draw of the failure branch is among them.
\<close>

theorem both_branches_drawn_counterexample:
  "field (fst (project_row demo 0 (0, 0))) ''success'' = Some (VInt 1) \<and>
   map fst (np_draws demo 0 (0, 0)) =
     [Lognormal 5 1, Lognormal 2 0.8, Gamma 3 2, Beta 5 2, Beta 4 2, Beta 5 3, Uniform 1 10,
      Beta 5 2, Poisson 3, Poisson 2, Normal 0 2, Normal 0 15, Beta 8 2] \<and>
   Normal 5 3 \<notin> set (map fst (np_draws demo 0 (0, 0))) \<and>
   Normal 25 15 \<notin> set (map fst (np_draws demo 0 (0, 0))) \<and>
   Beta 3 5 \<notin> set (map fst (np_draws demo 0 (0, 0)))"
proof -
  have b: "map fst (np_draws demo 0 (0, 0)) =
     [Lognormal 5 1, Lognormal 2 0.8, Gamma 3 2, Beta 5 2, Beta 4 2, Beta 5 3, Uniform 1 10,
      Beta 5 2, Poisson 3, Poisson 2, Normal 0 2, Normal 0 15, Beta 8 2]"
  proof (cases rule: project_row_cases [of demo 0 0 0])
    case (draws project_type ps1 industry ps2 x_budget n1 x_team n2 x_planned n3 x_scope n4
      x_stake n5 x_resource n6 x_technical n7 x_experience n8 change_requests n9 dependencies
      n10 u ps3 success planned z n11 v n12 q n13)
    from draws(19) have "success = 1" by (simp add: demo_row_0)
    with draws(21) show ?thesis by simp
  qed
  show ?thesis unfolding b by (simp add: demo_row_0 field_def)
qed

text \<open>
  C9, amended: only the parameterization that \<^verbatim>\<open>success\<close> selects is sampled. Every
  record makes three calls to \<^verbatim>\<open>random\<close> and thirteen to numpy, the same functions in
  the same order whatever the outcome; the arguments of the last three numpy calls, two
  normal draws and a beta draw, are those of the success branch when \<^verbatim>\<open>success\<close> is 1 and
  those of the failure branch when it is 0.
\<close>

theorem one_branch_drawn:
  "\<exists>success.
     field (fst (project_row R i st)) ''success'' = Some (VInt success) \<and>
     (success = 0 \<or> success = 1) \<and>
     map fst (rand_draws R i st) = [Choice project_types, Choice industries, Random] \<and>
     map fst (np_draws R i st) =
       [Lognormal 5 1, Lognormal 2 0.8, Gamma 3 2, Beta 5 2, Beta 4 2, Beta 5 3, Uniform 1 10,
        Beta 5 2, Poisson 3, Poisson 2] @
       (if success = 1 then [Normal 0 2, Normal 0 15, Beta 8 2]
        else [Normal 5 3, Normal 25 15, Beta 3 5]) \<and>
     length (np_draws R i st) = 13"
proof -
  obtain ps ns where st: "st = (ps, ns)" by (cases st)
  show ?thesis
  proof (cases rule: project_row_cases [of R ps ns i])
    case (draws project_type ps1 industry ps2 x_budget n1 x_team n2 x_planned n3 x_scope n4
      x_stake n5 x_resource n6 x_technical n7 x_experience n8 change_requests n9 dependencies
      n10 u ps3 success planned z n11 v n12 q n13)
    have s: "success = 0 \<or> success = 1" by (simp add: draws(14))
    then show ?thesis
      unfolding st draws(19) draws(20) draws(21) by (auto simp add: field_def)
  qed
qed




end
